theory Spec2Isabelle
  imports Complex_Main
begin

section \<open>JavaScript strings and values\<close>

text \<open>
  A JavaScript string is modelled as a \<open>string\<close>: the list of its code units, each a
  \<open>char\<close>. The model covers texts whose code units are below 256; whitespace is
  classified as \<open>String.prototype.trim\<close> does on that range, and so is lower-casing.
  Upper-casing and the printing of a number are left to the platform: they are
  parameters of the environment. Numbers that are indices, lengths, budgets and chunk
  parameters are integers (\<open>int\<close>).
\<close>

text \<open>
  The errors a call can end with: those raised by the language (\<open>TypeError\<close>,
  \<open>RangeError\<close>) and those of the three collaborators.
\<close>

datatype error = TypeError | RangeError | AIError | R2Error | VectorizeError

definition NL :: char where
  "NL = CHR 0x0A"

text \<open>
  \<open>String.prototype.slice(start, end)\<close>: a negative index counts from the end of the
  string, both indices are clamped to the string, and an empty string results when the
  clamped start is not before the clamped end.
\<close>

definition slice_index :: "int \<Rightarrow> int \<Rightarrow> nat" where
  "slice_index len k = (if k < 0 then nat (max (len + k) 0) else nat (min k len))"

definition slice :: "string \<Rightarrow> int \<Rightarrow> int \<Rightarrow> string" where
  "slice s start end =
     (let len = int (length s);
          from = slice_index len start;
          to = slice_index len end
      in take (to - from) (drop from s))"

text \<open>
  \<open>String.prototype.lastIndexOf(pat)\<close>: the greatest position at which \<open>pat\<close> occurs,
  or \<open>-1\<close>. \<open>lastIndexOf_from s pat k\<close> looks at the positions \<open>k, k - 1, ..., 0\<close>.
\<close>

fun lastIndexOf_from :: "string \<Rightarrow> string \<Rightarrow> nat \<Rightarrow> int" where
  "lastIndexOf_from s pat 0 = (if take (length pat) s = pat then 0 else -1)"
| "lastIndexOf_from s pat (Suc k) =
     (if take (length pat) (drop (Suc k) s) = pat then int (Suc k)
      else lastIndexOf_from s pat k)"

definition lastIndexOf :: "string \<Rightarrow> string \<Rightarrow> int" where
  "lastIndexOf s pat =
     (if length s < length pat then -1
      else lastIndexOf_from s pat (length s - length pat))"

text \<open>
  \<open>String.prototype.trim\<close> strips white space and line terminators from both ends.
  Below 256 these are TAB, LF, VT, FF, CR, SPACE and NO-BREAK SPACE.
\<close>

definition is_ws :: "char \<Rightarrow> bool" where
  "is_ws c = (c \<in> {CHR 0x09, CHR 0x0A, CHR 0x0B, CHR 0x0C, CHR 0x0D, CHR 0x20, CHR 0xA0})"

definition trim :: "string \<Rightarrow> string" where
  "trim s = rev (dropWhile is_ws (rev (dropWhile is_ws s)))"

section \<open>Chunker\<close>

text \<open>
  \<open>window_end\<close> is the body of the \<open>while\<close> loop of \<open>chunkText\<close> up to the final value
  of \<open>end\<close>: the hard boundary \<open>start + maxChars\<close>, moved back to the last break found
  in the window when the window does not reach the end of the text and the break lies
  beyond half of \<open>maxChars\<close>. \<open>lastBreak > maxChars * 0.5\<close> is written without the
  fraction.
\<close>

definition lastBreak :: "string \<Rightarrow> int" where
  "lastBreak sl =
     max (max (lastIndexOf sl [NL, NL]) (lastIndexOf sl ''. ''))
         (max (lastIndexOf sl ''? '') (lastIndexOf sl ''! ''))"

definition window_end :: "string \<Rightarrow> int \<Rightarrow> int \<Rightarrow> int" where
  "window_end text maxChars start =
     (let end = start + maxChars
      in if end < int (length text)
         then (let lb = lastBreak (slice text start end)
               in if 2 * lb > maxChars then start + lb + 1 else end)
         else end)"

text \<open>
  An array holds at most \<open>2^32 - 1\<close> elements: \<open>push\<close> on an array of that length
  raises \<open>RangeError: Invalid array length\<close>. The bound is the language's; what is
  proved below of a window that does not advance holds for any bound.
\<close>

definition MAX_ARRAY_LENGTH :: nat where
  "MAX_ARRAY_LENGTH = 4294967295"

text \<open>
  The \<open>while (start < text.length)\<close> loop. Every iteration pushes one chunk, so the
  loop ends: when \<open>start\<close> reaches the length of the text, with the chunks, or when
  the array of chunks is full, with the \<open>RangeError\<close> of \<open>push\<close>.
\<close>

function chunk_loop ::
  "string \<Rightarrow> int \<Rightarrow> int \<Rightarrow> int \<Rightarrow> string list \<Rightarrow> error + string list" where
  "chunk_loop text maxChars overlapChars start chunks =
     (if start < int (length text)
      then (if length chunks < MAX_ARRAY_LENGTH
            then chunk_loop text maxChars overlapChars
                   (window_end text maxChars start - overlapChars)
                   (chunks @ [trim (slice text start (window_end text maxChars start))])
            else Inl RangeError)
      else Inr chunks)"
  by pat_completeness auto
termination
  by (relation "measure (\<lambda>(text, maxChars, overlapChars, start, chunks).
                  MAX_ARRAY_LENGTH - length chunks)") auto

declare chunk_loop.simps [simp del]

text \<open>
  \<open>chunkText\<close> of the ingestion script (\<open>scripts/ingest.js\<close>): the parameters are
  character counts.
\<close>

definition chunkText_chars :: "string \<Rightarrow> int \<Rightarrow> int \<Rightarrow> error + string list" where
  "chunkText_chars text maxChars overlap =
     (if int (length text) \<le> maxChars then Inr [text]
      else chunk_loop text maxChars overlap 0 [])"

text \<open>
  \<open>chunkText\<close> of the worker (\<open>src/index.js\<close>): the parameters are token counts,
  multiplied by four; the rest of the body is the same text as in the script.
\<close>

definition chunkText :: "string \<Rightarrow> int \<Rightarrow> int \<Rightarrow> error + string list" where
  "chunkText text maxTokens overlap =
     (let maxChars = maxTokens * 4;
          overlapChars = overlap * 4
      in if int (length text) \<le> maxChars then Inr [text]
         else chunk_loop text maxChars overlapChars 0 [])"

section \<open>Metadata values\<close>

text \<open>
  Metadata objects hold JSON values. The model covers the two kinds of value the worker
  itself stores: strings and integer numbers. An absent key (\<open>undefined\<close>) is \<open>None\<close>.
\<close>

datatype jval = JStr string | JNum int

type_synonym jobj = "string \<rightharpoonup> jval"

text \<open>Truthiness: \<open>undefined\<close>, the empty string and \<open>0\<close> are falsy.\<close>

fun truthy :: "jval option \<Rightarrow> bool" where
  "truthy None = False"
| "truthy (Some (JStr s)) = (s \<noteq> [])"
| "truthy (Some (JNum n)) = (n \<noteq> 0)"

text \<open>\<open>a || b\<close> where \<open>b\<close> is a value that is always defined.\<close>

definition js_or :: "jval option \<Rightarrow> jval \<Rightarrow> jval" where
  "js_or a b = (case a of None \<Rightarrow> b | Some v \<Rightarrow> if truthy (Some v) then v else b)"



section \<open>Collaborators and the world\<close>

text \<open>
  The embedding model, the blob store and the vector index are outside the worker. The
  world records what the worker has written so far: the blobs put, the vectors
  upserted (both in call order) and the number of identifiers drawn. Each collaborator
  call either fails with an error or succeeds; whether it does may depend on the world
  and on its arguments. A failed write leaves the world as it was.
\<close>

type_synonym embedding = "real list"

record r2_object =
  r2_hash :: string
  r2_text :: string
  r2_metadata :: jobj

record vector =
  v_id :: string
  v_values :: embedding
  v_namespace :: string
  v_metadata :: jobj

record world =
  R2 :: "(string \<times> r2_object) list"
  VECTORIZE :: "vector list"
  uuids_drawn :: nat

record query_options =
  qo_topK :: int
  qo_returnValues :: bool
  qo_returnMetadata :: string
  qo_filter :: "(string \<times> string) list option"

record match =
  mt_id :: string
  mt_score :: real
  mt_metadata :: "jobj option"

text \<open>
  \<open>MAX_CHUNK_TOKENS\<close> and \<open>CHUNK_OVERLAP\<close> hold what \<open>parseInt\<close> makes of the
  environment variable: \<open>None\<close> is \<open>NaN\<close>. \<open>sha256_hex\<close> is the digest of
  \<open>hashContent\<close>, \<open>randomUUID\<close> the sequence of identifiers \<open>crypto.randomUUID\<close> yields.
  \<open>String_toUpperCase\<close> is \<open>String.prototype.toUpperCase\<close> and \<open>Number_toString\<close> the
  conversion of a number to a string that a template literal applies: built-in
  functions of the platform, whose tables are not part of the worker.
\<close>

record env =
  AI_run :: "world \<Rightarrow> string \<Rightarrow> error + embedding"
  R2_put :: "world \<Rightarrow> string \<Rightarrow> r2_object \<Rightarrow> error + unit"
  VECTORIZE_upsert :: "world \<Rightarrow> vector \<Rightarrow> error + unit"
  VECTORIZE_query :: "world \<Rightarrow> embedding \<Rightarrow> query_options \<Rightarrow> error + match list"
  MAX_CHUNK_TOKENS :: "int option"
  CHUNK_OVERLAP :: "int option"
  sha256_hex :: "string \<Rightarrow> string"
  randomUUID :: "nat \<Rightarrow> string"
  String_toUpperCase :: "string \<Rightarrow> string"
  Number_toString :: "int \<Rightarrow> string"

definition generateId :: "env \<Rightarrow> world \<Rightarrow> string \<times> world" where
  "generateId env w =
     (''mem_'' @ slice (filter (\<lambda>c. c \<noteq> CHR ''-'') (randomUUID env (uuids_drawn w))) 0 16,
      w\<lparr>uuids_drawn := Suc (uuids_drawn w)\<rparr>)"

definition hashContent :: "env \<Rightarrow> string \<Rightarrow> string" where
  "hashContent env t = sha256_hex env t"

definition generateEmbedding :: "env \<Rightarrow> world \<Rightarrow> string \<Rightarrow> error + embedding" where
  "generateEmbedding env w t = AI_run env w t"


section \<open>Attribution formatter\<close>

record memory =
  m_metadata :: "jobj option"
  m_text :: "jval option"

text \<open>\<open>memory.metadata?.key\<close>\<close>

definition meta_get :: "jobj option \<Rightarrow> string \<Rightarrow> jval option" where
  "meta_get md k = (case md of None \<Rightarrow> None | Some obj \<Rightarrow> obj k)"

text \<open>The string a template literal makes of a value.\<close>

fun toStr :: "env \<Rightarrow> jval \<Rightarrow> string" where
  "toStr env (JStr s) = s"
| "toStr env (JNum n) = Number_toString env n"

text \<open>
  \<open>type.toUpperCase()\<close> exists on strings only: a truthy number under \<open>memory_type\<close>
  raises a TypeError.
\<close>

definition formatAttribution :: "env \<Rightarrow> memory \<Rightarrow> error + string" where
  "formatAttribution env memory =
     (let entity = js_or (meta_get (m_metadata memory) ''entity_name'') (JStr ''unknown'');
          platform = js_or (meta_get (m_metadata memory) ''source_platform'') (JStr ''unknown'');
          timestamp = js_or (meta_get (m_metadata memory) ''timestamp'') (JStr ''unknown date'');
          type = js_or (meta_get (m_metadata memory) ''memory_type'') (JStr ''memory'')
      in case type of
           JNum _ \<Rightarrow> Inl TypeError
         | JStr t \<Rightarrow>
             Inr (''['' @ String_toUpperCase env t @ '' from '' @ toStr env entity
                  @ '' | Source: '' @ toStr env platform @ '' | '' @ toStr env timestamp
                  @ '']'' @ [NL]
                  @ toStr env (js_or (m_text memory)
                            (js_or (meta_get (m_metadata memory) ''text_preview'')
                               (JStr ''(content unavailable)'')))
                  @ [NL] @ ''---''))"

section \<open>Tool: search\<close>

text \<open>
  The arguments object of \<open>search\<close>: an absent property is \<open>None\<close>. The filter object
  is the list of its properties in the order they are assigned (the three keys differ,
  so no assignment replaces another).
\<close>

record search_args =
  sa_query :: string
  sa_entity :: "string option"
  sa_memory_type :: "string option"
  sa_source_platform :: "string option"
  sa_limit :: "int option"
  sa_min_score :: "real option"

record search_memory =
  sm_id :: string
  sm_score :: real
  sm_text :: "jval option"
  sm_metadata :: "jobj option"
  sm_formatted :: string

record search_result =
  sr_query :: string
  sr_count :: nat
  sr_memories :: "search_memory list"

definition search_filter :: "search_args \<Rightarrow> (string \<times> string) list" where
  "search_filter args =
     (case sa_entity args of
        None \<Rightarrow> []
      | Some entity \<Rightarrow> if entity \<noteq> [] \<and> entity \<noteq> ''all'' then [(''entity_name'', entity)] else [])
     @ (case sa_memory_type args of
        None \<Rightarrow> []
      | Some memory_type \<Rightarrow> if memory_type \<noteq> [] then [(''memory_type'', memory_type)] else [])
     @ (case sa_source_platform args of
        None \<Rightarrow> []
      | Some source_platform \<Rightarrow>
          if source_platform \<noteq> [] then [(''source_platform'', source_platform)] else [])"

definition search_queryOptions :: "search_args \<Rightarrow> query_options" where
  "search_queryOptions args =
     (let limit = (case sa_limit args of None \<Rightarrow> 10 | Some l \<Rightarrow> l);
          filter_obj = search_filter args
      in \<lparr>qo_topK = min limit 20, qo_returnValues = False, qo_returnMetadata = ''all'',
          qo_filter = (if length filter_obj > 0 then Some filter_obj else None)\<rparr>)"

text \<open>
  \<open>results.matches.filter(...).map(...)\<close>: the matches at or above \<open>min_score\<close>, each
  with its formatted block; the first block that raises ends the call.
\<close>

fun search_map :: "env \<Rightarrow> match list \<Rightarrow> error + search_memory list" where
  "search_map env [] = Inr []"
| "search_map env (m # ms) =
     (case formatAttribution env
             \<lparr>m_metadata = mt_metadata m, m_text = meta_get (mt_metadata m) ''text_preview''\<rparr> of
        Inl e \<Rightarrow> Inl e
      | Inr formatted \<Rightarrow>
          (case search_map env ms of
             Inl e \<Rightarrow> Inl e
           | Inr rest \<Rightarrow>
               Inr (\<lparr>sm_id = mt_id m, sm_score = mt_score m,
                      sm_text = meta_get (mt_metadata m) ''text_preview'',
                      sm_metadata = mt_metadata m, sm_formatted = formatted\<rparr> # rest)))"

definition toolSearch :: "env \<Rightarrow> world \<Rightarrow> search_args \<Rightarrow> error + search_result" where
  "toolSearch env w args =
     (let min_score = (case sa_min_score args of None \<Rightarrow> 0.7 | Some s \<Rightarrow> s)
      in case generateEmbedding env w (sa_query args) of
           Inl e \<Rightarrow> Inl e
         | Inr embedding \<Rightarrow>
             (case VECTORIZE_query env w embedding (search_queryOptions args) of
                Inl e \<Rightarrow> Inl e
              | Inr matches \<Rightarrow>
                  (case search_map env (filter (\<lambda>m. mt_score m \<ge> min_score) matches) of
                     Inl e \<Rightarrow> Inl e
                   | Inr memories \<Rightarrow>
                       Inr \<lparr>sr_query = sa_query args, sr_count = length memories,
                            sr_memories = memories\<rparr>)))"

section \<open>Tool: get\_grounding\_context\<close>






section \<open>Tool: ingest\<close>

text \<open>
  \<open>now\<close> is the value of \<open>new Date().toISOString()\<close> taken once per call. The object
  spread \<open>...metadata\<close> after the system keys is \<open>++\<close>: the right operand wins.
\<close>

record ingest_args =
  ia_content :: string
  ia_entity_name :: string
  ia_source_platform :: string
  ia_memory_type :: string
  ia_metadata :: "jobj option"

record ingest_item =
  ii_id :: string
  ii_hash :: string
  ii_chunk_index :: nat

record ingest_result =
  ir_success :: bool
  ir_entity :: string
  ir_chunks_created :: nat
  ir_memory_ids :: "string list"

definition ingest_metadata ::
  "ingest_args \<Rightarrow> string \<Rightarrow> string \<Rightarrow> string \<Rightarrow> nat \<Rightarrow> nat \<Rightarrow> jobj" where
  "ingest_metadata args now chunk hash i total_chunks =
     (let metadata = (case ia_metadata args of None \<Rightarrow> Map.empty | Some md \<Rightarrow> md)
      in [''entity_name'' \<mapsto> JStr (ia_entity_name args),
          ''source_platform'' \<mapsto> JStr (ia_source_platform args),
          ''memory_type'' \<mapsto> JStr (ia_memory_type args),
          ''timestamp'' \<mapsto> js_or (metadata ''timestamp'') (JStr now),
          ''text_preview'' \<mapsto> JStr (slice chunk 0 500),
          ''chunk_hash'' \<mapsto> JStr hash,
          ''chunk_index'' \<mapsto> JNum (int i),
          ''total_chunks'' \<mapsto> JNum (int total_chunks),
          ''ingested_at'' \<mapsto> JStr now] ++ metadata)"

text \<open>
  One pass of the body of the \<open>for\<close> loop of \<open>toolIngest\<close>, for chunk \<open>i\<close>. Nothing
  catches a collaborator's error: it leaves the function.
\<close>

definition ingest_chunk ::
  "env \<Rightarrow> ingest_args \<Rightarrow> string \<Rightarrow> nat \<Rightarrow> nat \<Rightarrow> string \<Rightarrow> world
     \<Rightarrow> (error + ingest_item) \<times> world" where
  "ingest_chunk env args now total_chunks i chunk w =
     (let hash = hashContent env chunk;
          (new_id, w1) = generateId env w
      in case generateEmbedding env w1 chunk of
           Inl e \<Rightarrow> (Inl e, w1)
         | Inr embedding \<Rightarrow>
             (let vectorMetadata = ingest_metadata args now chunk hash i total_chunks;
                  r2Key = ''chunks/'' @ hash @ ''.json'';
                  put = (if length chunk > 500
                         then (case R2_put env w1 r2Key
                                      \<lparr>r2_hash = hash, r2_text = chunk,
                                        r2_metadata = vectorMetadata\<rparr> of
                                 Inl e \<Rightarrow> Inl e
                               | Inr _ \<Rightarrow>
                                   Inr (vectorMetadata(''r2_key'' \<mapsto> JStr r2Key),
                                        w1\<lparr>R2 := R2 w1 @
                                              [(r2Key, \<lparr>r2_hash = hash, r2_text = chunk,
                                                        r2_metadata = vectorMetadata\<rparr>)]\<rparr>))
                         else Inr (vectorMetadata, w1))
              in case put of
                   Inl e \<Rightarrow> (Inl e, w1)
                 | Inr (vectorMetadata', w2) \<Rightarrow>
                     (let v = \<lparr>v_id = new_id, v_values = embedding,
                               v_namespace = ia_entity_name args,
                               v_metadata = vectorMetadata'\<rparr>
                      in case VECTORIZE_upsert env w2 v of
                           Inl e \<Rightarrow> (Inl e, w2)
                         | Inr _ \<Rightarrow>
                             (Inr \<lparr>ii_id = new_id, ii_hash = hash, ii_chunk_index = i\<rparr>,
                              w2\<lparr>VECTORIZE := VECTORIZE w2 @ [v]\<rparr>))))"

function ingest_loop ::
  "env \<Rightarrow> ingest_args \<Rightarrow> string \<Rightarrow> string list \<Rightarrow> nat \<Rightarrow> ingest_item list \<Rightarrow> world
     \<Rightarrow> (error + ingest_item list) \<times> world" where
  "ingest_loop env args now chunks i results w =
     (if i < length chunks
      then (case ingest_chunk env args now (length chunks) i (chunks ! i) w of
              (Inl e, w') \<Rightarrow> (Inl e, w')
            | (Inr item, w') \<Rightarrow> ingest_loop env args now chunks (i + 1) (results @ [item]) w')
      else (Inr results, w))"
  by pat_completeness auto
termination
  by (relation "measure (\<lambda>(env, args, now, chunks, i, results, w). length chunks - i)") auto

declare ingest_loop.simps [simp del]

text \<open>\<open>parseInt(v) || d\<close>: \<open>NaN\<close> and \<open>0\<close> are falsy.\<close>

definition parseInt_or :: "int option \<Rightarrow> int \<Rightarrow> int" where
  "parseInt_or v d = (case v of None \<Rightarrow> d | Some n \<Rightarrow> if n \<noteq> 0 then n else d)"

text \<open>An error of \<open>chunkText\<close> leaves the call before any collaborator is asked.\<close>

definition toolIngest ::
  "env \<Rightarrow> ingest_args \<Rightarrow> string \<Rightarrow> world \<Rightarrow> (error + ingest_result) \<times> world" where
  "toolIngest env args now w =
     (let maxChunkTokens = parseInt_or (MAX_CHUNK_TOKENS env) 400;
          chunkOverlap = parseInt_or (CHUNK_OVERLAP env) 50
      in case chunkText (ia_content args) maxChunkTokens chunkOverlap of
           Inl e \<Rightarrow> (Inl e, w)
         | Inr chunks \<Rightarrow>
             (case ingest_loop env args now chunks 0 [] w of
                (Inl e, w') \<Rightarrow> (Inl e, w')
              | (Inr results, w') \<Rightarrow>
                  (Inr \<lparr>ir_success = True, ir_entity = ia_entity_name args,
                         ir_chunks_created = length results,
                         ir_memory_ids = map ii_id results\<rparr>, w')))"

section \<open>Tool: store\<close>

record store_args =
  st_text :: string
  st_entity_name :: string
  st_source_platform :: "string option"
  st_memory_type :: string
  st_metadata :: "jobj option"

record store_result =
  sto_success :: bool
  sto_memory_id :: string
  sto_entity :: string
  sto_type :: string

definition store_metadata :: "store_args \<Rightarrow> string \<Rightarrow> string \<Rightarrow> jobj" where
  "store_metadata args now hash =
     (let metadata = (case st_metadata args of None \<Rightarrow> Map.empty | Some md \<Rightarrow> md);
          source_platform = (case st_source_platform args of None \<Rightarrow> ''direct'' | Some p \<Rightarrow> p)
      in [''entity_name'' \<mapsto> JStr (st_entity_name args),
          ''source_platform'' \<mapsto> JStr source_platform,
          ''memory_type'' \<mapsto> JStr (st_memory_type args),
          ''timestamp'' \<mapsto> js_or (metadata ''timestamp'') (JStr now),
          ''text_preview'' \<mapsto> JStr (slice (st_text args) 0 500),
          ''chunk_hash'' \<mapsto> JStr hash,
          ''ingested_at'' \<mapsto> JStr now] ++ metadata)"

definition toolStore ::
  "env \<Rightarrow> store_args \<Rightarrow> string \<Rightarrow> world \<Rightarrow> (error + store_result) \<times> world" where
  "toolStore env args now w =
     (let (new_id, w1) = generateId env w;
          hash = hashContent env (st_text args)
      in case generateEmbedding env w1 (st_text args) of
           Inl e \<Rightarrow> (Inl e, w1)
         | Inr embedding \<Rightarrow>
             (let v = \<lparr>v_id = new_id, v_values = embedding, v_namespace = st_entity_name args,
                       v_metadata = store_metadata args now hash\<rparr>
              in case VECTORIZE_upsert env w1 v of
                   Inl e \<Rightarrow> (Inl e, w1)
                 | Inr _ \<Rightarrow>
                     (Inr \<lparr>sto_success = True, sto_memory_id = new_id,
                           sto_entity = st_entity_name args, sto_type = st_memory_type args\<rparr>,
                      w1\<lparr>VECTORIZE := VECTORIZE w1 @ [v]\<rparr>)))"

section \<open>The attribution block in the words of its description\<close>

text \<open>
  The text shown for a field: the field's value when it is present and truthy, the
  fallback otherwise.
\<close>

definition attr_field :: "env \<Rightarrow> jval option \<Rightarrow> string \<Rightarrow> string" where
  "attr_field env v fallback =
     (case v of
        None \<Rightarrow> fallback
      | Some (JStr s) \<Rightarrow> if s = [] then fallback else s
      | Some (JNum n) \<Rightarrow> if n = 0 then fallback else Number_toString env n)"

section \<open>The collaborator calls for one chunk\<close>

text \<open>
  What \<open>toolIngest\<close> asks of the collaborators for chunk \<open>i\<close> of \<open>n\<close>, started in
  world \<open>w\<close>. The identifier is drawn first, so the collaborators are called in
  \<open>chunk_world w\<close>; a chunk longer than 500 characters is put under \<open>chunk_blob_key\<close>
  before the upsert, which then sees the blob in \<open>chunk_put_world\<close>.
\<close>

definition chunk_world :: "world \<Rightarrow> world" where
  "chunk_world w = w\<lparr>uuids_drawn := Suc (uuids_drawn w)\<rparr>"

definition chunk_blob_key :: "env \<Rightarrow> string \<Rightarrow> string" where
  "chunk_blob_key env chunk = ''chunks/'' @ hashContent env chunk @ ''.json''"

definition chunk_blob :: "env \<Rightarrow> ingest_args \<Rightarrow> string \<Rightarrow> nat \<Rightarrow> nat \<Rightarrow> string \<Rightarrow> r2_object" where
  "chunk_blob env args now n i chunk =
     \<lparr>r2_hash = hashContent env chunk, r2_text = chunk,
      r2_metadata = ingest_metadata args now chunk (hashContent env chunk) i n\<rparr>"

definition chunk_put_world ::
  "env \<Rightarrow> ingest_args \<Rightarrow> string \<Rightarrow> nat \<Rightarrow> nat \<Rightarrow> string \<Rightarrow> world \<Rightarrow> world" where
  "chunk_put_world env args now n i chunk w =
     (if length chunk > 500
      then (chunk_world w)\<lparr>R2 := R2 (chunk_world w)
                                   @ [(chunk_blob_key env chunk, chunk_blob env args now n i chunk)]\<rparr>
      else chunk_world w)"

definition chunk_vector ::
  "env \<Rightarrow> ingest_args \<Rightarrow> string \<Rightarrow> nat \<Rightarrow> nat \<Rightarrow> string \<Rightarrow> world \<Rightarrow> embedding \<Rightarrow> vector" where
  "chunk_vector env args now n i chunk w emb =
     \<lparr>v_id = fst (generateId env w), v_values = emb, v_namespace = ia_entity_name args,
      v_metadata =
        (if length chunk > 500
         then (ingest_metadata args now chunk (hashContent env chunk) i n)
                (''r2_key'' \<mapsto> JStr (chunk_blob_key env chunk))
         else ingest_metadata args now chunk (hashContent env chunk) i n)\<rparr>"

text \<open>
  The chunk is written: the embedding, the put (for a long chunk) and the upsert all
  succeed, and \<open>w'\<close> is the world with the vector added.
\<close>

definition chunk_written ::
  "env \<Rightarrow> ingest_args \<Rightarrow> string \<Rightarrow> nat \<Rightarrow> nat \<Rightarrow> string \<Rightarrow> world \<Rightarrow> world \<Rightarrow> bool" where
  "chunk_written env args now n i chunk w w' =
     (case AI_run env (chunk_world w) chunk of
        Inl e \<Rightarrow> False
      | Inr emb \<Rightarrow>
          (length chunk > 500 \<longrightarrow>
             R2_put env (chunk_world w) (chunk_blob_key env chunk)
               (chunk_blob env args now n i chunk) = Inr ()) \<and>
          VECTORIZE_upsert env (chunk_put_world env args now n i chunk w)
            (chunk_vector env args now n i chunk w emb) = Inr () \<and>
          w' = (chunk_put_world env args now n i chunk w)
                 \<lparr>VECTORIZE := VECTORIZE (chunk_put_world env args now n i chunk w)
                                  @ [chunk_vector env args now n i chunk w emb]\<rparr>)"

text \<open>
  A collaborator fails for the chunk with error \<open>e\<close>: the embedding, or the put of a
  long chunk, or the upsert after both succeeded; \<open>w'\<close> is the world at that moment.
\<close>

definition chunk_failed ::
  "env \<Rightarrow> ingest_args \<Rightarrow> string \<Rightarrow> nat \<Rightarrow> nat \<Rightarrow> string \<Rightarrow> world \<Rightarrow> error \<Rightarrow> world \<Rightarrow> bool" where
  "chunk_failed env args now n i chunk w e w' =
     (case AI_run env (chunk_world w) chunk of
        Inl e1 \<Rightarrow> e1 = e \<and> w' = chunk_world w
      | Inr emb \<Rightarrow>
          (length chunk > 500 \<and>
           R2_put env (chunk_world w) (chunk_blob_key env chunk)
             (chunk_blob env args now n i chunk) = Inl e \<and>
           w' = chunk_world w) \<or>
          ((length chunk > 500 \<longrightarrow>
              R2_put env (chunk_world w) (chunk_blob_key env chunk)
                (chunk_blob env args now n i chunk) = Inr ()) \<and>
           VECTORIZE_upsert env (chunk_put_world env args now n i chunk w)
             (chunk_vector env args now n i chunk w emb) = Inl e \<and>
           w' = chunk_put_world env args now n i chunk w))"

text \<open>The vector \<open>toolStore\<close> asks the index to upsert, for the embedding \<open>emb\<close>.\<close>

definition store_vector :: "env \<Rightarrow> store_args \<Rightarrow> string \<Rightarrow> world \<Rightarrow> embedding \<Rightarrow> vector" where
  "store_vector env args now w emb =
     \<lparr>v_id = fst (generateId env w), v_values = emb, v_namespace = st_entity_name args,
      v_metadata = store_metadata args now (hashContent env (st_text args))\<rparr>"

section \<open>The windows of the chunker\<close>


section \<open>Example collaborators\<close>

text \<open>
  Stand-ins for the two built-in conversions, for the examples only: upper-casing of
  the ASCII letters, which is what \<open>toUpperCase\<close> does on an ASCII text, and the
  decimal digits of an integer, which is what a template literal prints for an integer
  of magnitude below \<open>10^21\<close>.
\<close>

definition ascii_upper_char :: "char \<Rightarrow> char" where
  "ascii_upper_char c =
     (let n = (of_char c :: nat) in if 97 \<le> n \<and> n \<le> 122 then char_of (n - 32) else c)"

definition ascii_upper :: "string \<Rightarrow> string" where
  "ascii_upper s = map ascii_upper_char s"

fun decimal_digits :: "nat \<Rightarrow> string" where
  "decimal_digits n =
     (if n < 10 then [char_of (48 + n)]
      else decimal_digits (n div 10) @ [char_of (48 + n mod 10)])"

declare decimal_digits.simps [simp del]

definition decimal :: "int \<Rightarrow> string" where
  "decimal n = (if n < 0 then CHR ''-'' # decimal_digits (nat (- n)) else decimal_digits (nat n))"

text \<open>
  Collaborators that always succeed, with a constant stand-in for the digest, and an
  empty world.
\<close>

definition example_env :: env where
  "example_env =
     \<lparr>AI_run = (\<lambda>w t. Inr [0.5]), R2_put = (\<lambda>w k obj. Inr ()),
      VECTORIZE_upsert = (\<lambda>w v. Inr ()), VECTORIZE_query = (\<lambda>w e q. Inr []),
      MAX_CHUNK_TOKENS = None, CHUNK_OVERLAP = None,
      sha256_hex = (\<lambda>t. ''00''), randomUUID = (\<lambda>n. ''1b4e28ba-2fa1-11d2-883f-0016d3cca427''),
      String_toUpperCase = ascii_upper, Number_toString = decimal\<rparr>"

definition empty_world :: world where
  "empty_world = \<lparr>R2 = [], VECTORIZE = [], uuids_drawn = 0\<rparr>"



text \<open>
  A small window (two tokens, one of overlap) with an embedding model that fails on the
  second call of an ingest that starts in the empty world.
\<close>

definition example_failing_env :: env where
  "example_failing_env =
     example_env\<lparr>AI_run := (\<lambda>w t. if uuids_drawn w = 2 then Inl AIError else Inr [0.5]),
                 MAX_CHUNK_TOKENS := Some 2, CHUNK_OVERLAP := Some 1\<rparr>"

text \<open>
  An ingest of twelve characters under these collaborators: the world after the first
  chunk is written, and the world in which the embedding of the second chunk fails.
\<close>

definition example_args :: ingest_args where
  "example_args =
     \<lparr>ia_content = ''aaaaaaaaaaaa'', ia_entity_name = ''e1'', ia_source_platform = ''p'',
      ia_memory_type = ''note'', ia_metadata = None\<rparr>"

definition example_now :: string where
  "example_now = ''2026-01-15T00:00:00.000Z''"

definition example_world_written :: world where
  "example_world_written =
     \<lparr>R2 = [],
      VECTORIZE =
        [\<lparr>v_id = ''mem_1b4e28ba2fa111d2'', v_values = [0.5], v_namespace = ''e1'',
          v_metadata = ingest_metadata example_args example_now ''aaaaaaaa'' ''00'' 0 3\<rparr>],
      uuids_drawn = 1\<rparr>"

definition example_world_failed :: world where
  "example_world_failed = example_world_written\<lparr>uuids_drawn := 2\<rparr>"

text \<open>An index that accepts a vector naming a blob only when the blob is stored.\<close>

definition example_checking_env :: env where
  "example_checking_env =
     example_env\<lparr>VECTORIZE_upsert :=
        (\<lambda>w v. case v_metadata v ''r2_key'' of
                  Some (JStr k) \<Rightarrow> if k \<in> fst ` set (R2 w) then Inr () else Inl VectorizeError
                | _ \<Rightarrow> Inr ())\<rparr>"

text \<open>A blob store that refuses every put, and an ingest of one chunk of 600 characters.\<close>

definition example_put_failing_env :: env where
  "example_put_failing_env = example_env\<lparr>R2_put := (\<lambda>w k obj. Inl R2Error)\<rparr>"

definition example_long_args :: ingest_args where
  "example_long_args =
     \<lparr>ia_content = replicate 600 CHR ''a'', ia_entity_name = ''e1'', ia_source_platform = ''p'',
      ia_memory_type = ''note'', ia_metadata = None\<rparr>"

section \<open>Properties of the chunker\<close>

subsection \<open>String primitives\<close>

lemma lastIndexOf_from_le: "lastIndexOf_from s pat k \<le> int k"
  by (induction k) auto

lemma lastIndexOf_from_ge: "- 1 \<le> lastIndexOf_from s pat k"
  by (induction k) auto

lemma lastIndexOf_ge: "- 1 \<le> lastIndexOf s pat"
  by (simp add: lastIndexOf_def lastIndexOf_from_ge)

lemma lastIndexOf_le: "lastIndexOf s pat \<le> max (- 1) (int (length s) - int (length pat))"
  using lastIndexOf_from_le [of s pat "length s - length pat"]
  by (auto simp: lastIndexOf_def)

lemma lastBreak_ge: "- 1 \<le> lastBreak sl"
  using lastIndexOf_ge [of sl "[NL, NL]"] by (simp add: lastBreak_def)

lemma lastBreak_le: "lastBreak sl \<le> max (- 1) (int (length sl) - 2)"
  using lastIndexOf_le [of sl "[NL, NL]"] lastIndexOf_le [of sl "''. ''"]
    lastIndexOf_le [of sl "''? ''"] lastIndexOf_le [of sl "''! ''"]
  by (simp add: lastBreak_def)

lemma length_slice_le: "a \<le> b \<Longrightarrow> int (length (slice s a b)) \<le> b - a"
  by (auto simp: slice_def slice_index_def Let_def min_def max_def)

lemma window_end_le:
  assumes "0 \<le> maxChars"
  shows "window_end text maxChars start \<le> start + maxChars"
proof -
  have "int (length (slice text start (start + maxChars))) \<le> maxChars"
    using length_slice_le [of start "start + maxChars" "text"] assms by simp
  then have "2 * lastBreak (slice text start (start + maxChars)) > maxChars \<Longrightarrow>
      lastBreak (slice text start (start + maxChars)) + 1 \<le> maxChars"
    using lastBreak_le [of "slice text start (start + maxChars)"] assms by linarith
  then show ?thesis
    by (auto simp: window_end_def Let_def)
qed






lemma dropWhile_id_iff: "dropWhile P xs = xs \<longleftrightarrow> xs = [] \<or> \<not> P (hd xs)"
proof (cases xs)
  case Nil
  then show ?thesis by simp
next
  case (Cons x ys)
  have "length (dropWhile P ys) \<le> length ys" by (rule length_dropWhile_le)
  then have "dropWhile P ys \<noteq> x # ys" by auto
  with Cons show ?thesis by auto
qed

lemma trim_id_iff: "trim w = w \<longleftrightarrow> w = [] \<or> (\<not> is_ws (hd w) \<and> \<not> is_ws (last w))"
proof (cases "w = []")
  case True
  then show ?thesis by (simp add: trim_def)
next
  case False
  show ?thesis
  proof (cases "is_ws (hd w)")
    case True
    have "length (trim w) \<le> length (dropWhile is_ws w)"
      unfolding trim_def using length_dropWhile_le [of is_ws "rev (dropWhile is_ws w)"] by simp
    moreover have "length (dropWhile is_ws w) < length w"
      using False True by (cases w) (auto simp: le_imp_less_Suc length_dropWhile_le)
    ultimately have "trim w \<noteq> w" by auto
    with True False show ?thesis by simp
  next
    case nws: False
    then have "dropWhile is_ws w = w" by (simp add: dropWhile_id_iff)
    then have "trim w = w \<longleftrightarrow> dropWhile is_ws (rev w) = rev w"
      unfolding trim_def by (metis rev_rev_ident)
    also have "\<dots> \<longleftrightarrow> \<not> is_ws (last w)"
      using False by (simp add: dropWhile_id_iff hd_rev)
    finally show ?thesis using False nws by simp
  qed
qed

lemma chunkText_chars_eq: "chunkText text m ov = chunkText_chars text (m * 4) (ov * 4)"
  by (simp add: chunkText_def chunkText_chars_def Let_def)

subsection \<open>The loop and its windows\<close>

lemma chunk_loop_stuck:
  "0 \<le> mc \<Longrightarrow> mc \<le> ov \<Longrightarrow> start \<le> 0 \<Longrightarrow> t \<noteq> [] \<Longrightarrow>
     chunk_loop t mc ov start chunks = Inl RangeError"
proof (induction t mc ov start chunks rule: chunk_loop.induct)
  case (1 t mc ov start chunks)
  from "1.prems" have lt: "start < int (length t)" by (cases t) auto
  show ?case
  proof (cases "length chunks < MAX_ARRAY_LENGTH")
    case True
    from "1.prems" have "window_end t mc start - ov \<le> 0"
      using window_end_le [of mc t start] by linarith
    from "1.IH" [OF lt True "1.prems"(1,2) this "1.prems"(4)] lt True
    show ?thesis by (subst chunk_loop.simps) simp
  next
    case False
    with lt show ?thesis by (subst chunk_loop.simps) simp
  qed
qed




subsection \<open>Short texts\<close>

text \<open>
  C7 (amended). For every text with length at most \<open>maxChars\<close>, chunking returns exactly
  one chunk, and that chunk is the input text as it is: nothing is trimmed. It equals
  the whitespace-trimmed input exactly when the text is empty or neither begins nor ends
  with white space. This holds for the script's chunker (character counts) and for the
  worker's (token counts, four characters each).
\<close>

theorem chunkText_short_text_unchanged:
  "(int (length text) \<le> maxChars \<longrightarrow>
      chunkText_chars text maxChars overlapChars = Inr [text]) \<and>
   (int (length text) \<le> maxTokens * 4 \<longrightarrow>
      chunkText text maxTokens overlap = Inr [text]) \<and>
   ([text] = [trim text] \<longleftrightarrow> text = [] \<or> (\<not> is_ws (hd text) \<and> \<not> is_ws (last text)))"
  using trim_id_iff [of "text"]
  by (auto simp: chunkText_chars_def chunkText_def Let_def)

theorem chunkText_short_text_unchanged_witness:
  "int (length '' a'') \<le> 1500 \<and> chunkText_chars '' a'' 1500 200 = Inr ['' a''] \<and>
   int (length '' a'') \<le> 400 * 4 \<and> chunkText '' a'' 400 50 = Inr ['' a''] \<and>
   [''a''] = [trim ''a'']"
  using chunkText_short_text_unchanged [of "'' a''" 1500 200 400 50]
    chunkText_short_text_unchanged [of "''a''" 1500 200 400 50]
  by (simp add: is_ws_def)

text \<open>
  C7 as stated fails: the two-character text made of a space and \<open>a\<close> is shorter than
  the window, and comes back with its leading space, while its trimmed form is \<open>a\<close>.
\<close>

theorem chunkText_short_text_not_trimmed:
  "int (length '' a'') \<le> 400 * 4 \<and> chunkText '' a'' 400 50 = Inr ['' a''] \<and>
   trim '' a'' = ''a'' \<and> chunkText '' a'' 400 50 \<noteq> Inr [trim '' a''] \<and>
   int (length '' a'') \<le> 1500 \<and> chunkText_chars '' a'' 1500 200 \<noteq> Inr [trim '' a'']"
  by (simp add: chunkText_def chunkText_chars_def trim_def is_ws_def)

subsection \<open>Overlap at least as large as the window\<close>

text \<open>
  C2 (amended). The chunker has no guard for \<open>overlapChars \<ge> maxChars\<close> and enforces no
  minimum advance: for \<open>0 \<le> maxChars \<le> overlapChars\<close> the next window never starts
  after the current one. The call then returns chunks only when the text is no longer
  than \<open>maxChars\<close> (the single-chunk early return). On every longer text the window
  start stays at or before 0, one chunk is pushed per iteration, and the call ends with
  \<open>RangeError\<close> once the array of chunks is full. The same holds for the worker's chunker
  with its token parameters.
\<close>

theorem chunkText_overlap_ge_max_range_error:
  assumes "0 \<le> m" and "m \<le> ov"
  shows "window_end text m start - ov \<le> start \<and>
         chunkText_chars text m ov =
           (if int (length text) \<le> m then Inr [text] else Inl RangeError) \<and>
         window_end text (m * 4) start - ov * 4 \<le> start \<and>
         chunkText text m ov =
           (if int (length text) \<le> m * 4 then Inr [text] else Inl RangeError)"
proof -
  have stuck: "chunk_loop text k kov 0 [] = Inl RangeError"
    if "0 \<le> k" and "k \<le> kov" and "k < int (length text)" for k kov
  proof -
    from that have "text \<noteq> []" by auto
    with that show ?thesis by (simp add: chunk_loop_stuck)
  qed
  have a: "chunkText_chars text k kov =
             (if int (length text) \<le> k then Inr [text] else Inl RangeError)"
    and b: "window_end text k start - kov \<le> start"
    if "0 \<le> k" and "k \<le> kov" for k kov
    using stuck [of k kov] that window_end_le [of k "text" start]
    by (auto simp: chunkText_chars_def)
  from assms have "0 \<le> m * 4" and "m * 4 \<le> ov * 4" by simp_all
  from a [OF this] b [OF this] a [OF assms] b [OF assms]
  show ?thesis by (simp add: chunkText_chars_eq)
qed

theorem chunkText_overlap_ge_max_range_error_witness:
  "(0::int) \<le> 1 \<and> (1::int) \<le> 2 \<and>
   window_end ''hello'' 1 0 - 2 \<le> 0 \<and>
   chunkText_chars ''hello'' 1 2 = Inl RangeError \<and>
   chunkText ''hello'' 1 2 = Inl RangeError \<and>
   chunkText ''hell'' 1 2 = Inr [''hell'']"
  using chunkText_overlap_ge_max_range_error [of 1 2 "''hello''" 0]
    chunkText_overlap_ge_max_range_error [of 1 2 "''hell''" 0]
  by simp

text \<open>
  C2 as stated fails: with \<open>overlapChars = maxChars = 4\<close> the window over the
  five-character text \<open>hello\<close> does not advance (the next start is 0 again), and the
  call returns no chunks: it ends with \<open>RangeError\<close>, in the worker (one token of
  window, one of overlap) as in the script.
\<close>

theorem chunkText_overlap_eq_max_no_chunks:
  "(1::int) \<ge> 1 \<and> window_end ''hello'' 4 0 - 4 = 0 \<and>
   chunkText ''hello'' 1 1 = Inl RangeError \<and>
   (4::int) \<ge> 4 \<and> chunkText_chars ''hello'' 4 4 = Inl RangeError"
  by (simp add: chunkText_def chunkText_chars_def chunk_loop_stuck window_end_def slice_def
      slice_index_def lastBreak_def lastIndexOf_def NL_def)

subsection \<open>Empty chunks\<close>




section \<open>Properties of the attribution formatter\<close>

lemma js_or_attr_field: "toStr env (js_or v (JStr fb)) = attr_field env v fb"
  by (cases v rule: truthy.cases) (auto simp: js_or_def attr_field_def)

lemma js_or_type_cases:
  "\<not> (\<exists>n. n \<noteq> 0 \<and> v = Some (JNum n)) \<Longrightarrow> js_or v (JStr fb) = JStr (attr_field env v fb)"
  by (cases v rule: truthy.cases) (auto simp: js_or_def attr_field_def)

lemma js_or_nested:
  "toStr env (js_or a (js_or b (JStr fb))) = attr_field env a (attr_field env b fb)"
  by (cases a rule: truthy.cases; cases b rule: truthy.cases) (auto simp: js_or_def attr_field_def)

lemma ascii_upper_note: "ascii_upper ''note'' = ''NOTE''"
  by code_simp

text \<open>
  C5 (amended). For every memory unit whose \<open>memory_type\<close> is absent, falsy or a string,
  the formatter emits the four bracketed fields in fixed order (the memory type as the
  platform's \<open>toUpperCase\<close> returns it, entity, platform, timestamp), then the content
  line and a \<open>---\<close> line. A missing (absent or falsy) entity or platform is shown as
  \<open>unknown\<close>, a missing timestamp as \<open>unknown date\<close>, a missing memory type as the
  upper-casing of \<open>memory\<close>; missing content falls back to the metadata's
  \<open>text_preview\<close> and then to \<open>(content unavailable)\<close>. A number in a field is shown
  as the platform prints it.
\<close>

theorem formatAttribution_layout:
  assumes "\<not> (\<exists>n. n \<noteq> 0 \<and> meta_get (m_metadata memory) ''memory_type'' = Some (JNum n))"
  shows "formatAttribution env memory =
     Inr (''[''
          @ String_toUpperCase env
              (attr_field env (meta_get (m_metadata memory) ''memory_type'') ''memory'')
          @ '' from '' @ attr_field env (meta_get (m_metadata memory) ''entity_name'') ''unknown''
          @ '' | Source: ''
          @ attr_field env (meta_get (m_metadata memory) ''source_platform'') ''unknown''
          @ '' | '' @ attr_field env (meta_get (m_metadata memory) ''timestamp'') ''unknown date''
          @ '']'' @ [NL]
          @ attr_field env (m_text memory)
              (attr_field env (meta_get (m_metadata memory) ''text_preview'')
                 ''(content unavailable)'')
          @ [NL] @ ''---'')"
  using js_or_type_cases [OF assms, of "''memory''" env]
  by (simp add: formatAttribution_def Let_def js_or_attr_field js_or_nested
        del: toStr.simps)

theorem formatAttribution_layout_witness:
  "\<not> (\<exists>n. n \<noteq> 0 \<and> meta_get (Some [''memory_type'' \<mapsto> JStr ''note'', ''entity_name'' \<mapsto> JStr ''e1''])
            ''memory_type'' = Some (JNum n)) \<and>
   formatAttribution example_env
      \<lparr>m_metadata = Some [''memory_type'' \<mapsto> JStr ''note'', ''entity_name'' \<mapsto> JStr ''e1''],
        m_text = None\<rparr> =
     Inr (''[NOTE from e1 | Source: unknown | unknown date]'' @ [NL]
          @ ''(content unavailable)'' @ [NL] @ ''---'')"
  using formatAttribution_layout
    [of "\<lparr>m_metadata = Some [''memory_type'' \<mapsto> JStr ''note'', ''entity_name'' \<mapsto> JStr ''e1''],
                      m_text = None\<rparr>" example_env]
  by (simp add: meta_get_def attr_field_def example_env_def ascii_upper_note)

text \<open>
  C5 as stated fails: a note without a timestamp is rendered with \<open>unknown date\<close>, not
  with \<open>unknown\<close>.
\<close>

theorem formatAttribution_timestamp_fallback:
  "formatAttribution example_env
     \<lparr>m_metadata = Some [''memory_type'' \<mapsto> JStr ''note'', ''entity_name'' \<mapsto> JStr ''e1'',
                         ''source_platform'' \<mapsto> JStr ''p''],
      m_text = Some (JStr ''c'')\<rparr> =
     Inr (''[NOTE from e1 | Source: p | unknown date]'' @ [NL] @ ''c'' @ [NL] @ ''---'') \<and>
   formatAttribution example_env
     \<lparr>m_metadata = Some [''memory_type'' \<mapsto> JStr ''note'', ''entity_name'' \<mapsto> JStr ''e1'',
                         ''source_platform'' \<mapsto> JStr ''p''],
      m_text = Some (JStr ''c'')\<rparr> \<noteq>
     Inr (''[NOTE from e1 | Source: p | unknown]'' @ [NL] @ ''c'' @ [NL] @ ''---'')"
  by (simp add: formatAttribution_def js_or_def meta_get_def example_env_def ascii_upper_note)

section \<open>Properties of the search filter\<close>

text \<open>
  C3 (amended). For every search call, the index filter holds \<open>entity_name\<close> exactly
  when \<open>entity\<close> is supplied, non-empty and not \<open>all\<close>; it holds \<open>memory_type\<close> exactly
  when \<open>memory_type\<close> is supplied and non-empty, and \<open>source_platform\<close> exactly when
  \<open>source_platform\<close> is supplied and non-empty, each with the supplied value: \<open>all\<close>
  is a wildcard for \<open>entity\<close> only. The filter has no other key, and when no field
  qualifies the query options carry no filter. These are the options of the index query
  of every search that returns.
\<close>

theorem search_filter_fields:
  "(map_of (search_filter args) ''entity_name'' = Some v
      \<longleftrightarrow> sa_entity args = Some v \<and> v \<noteq> [] \<and> v \<noteq> ''all'') \<and>
   (map_of (search_filter args) ''memory_type'' = Some v
      \<longleftrightarrow> sa_memory_type args = Some v \<and> v \<noteq> []) \<and>
   (map_of (search_filter args) ''source_platform'' = Some v
      \<longleftrightarrow> sa_source_platform args = Some v \<and> v \<noteq> []) \<and>
   fst ` set (search_filter args) \<subseteq> {''entity_name'', ''memory_type'', ''source_platform''} \<and>
   distinct (map fst (search_filter args)) \<and>
   qo_filter (search_queryOptions args) =
     (if search_filter args = [] then None else Some (search_filter args)) \<and>
   (toolSearch env w args = Inr r \<longrightarrow>
      (\<exists>emb ms. generateEmbedding env w (sa_query args) = Inr emb \<and>
          VECTORIZE_query env w emb (search_queryOptions args) = Inr ms))"
proof -
  have "toolSearch env w args = Inr r \<longrightarrow>
      (\<exists>emb ms. generateEmbedding env w (sa_query args) = Inr emb \<and>
          VECTORIZE_query env w emb (search_queryOptions args) = Inr ms)"
    by (auto simp: toolSearch_def Let_def split: sum.splits)
  then show ?thesis
    by (auto simp: search_filter_def search_queryOptions_def Let_def split: option.splits)
qed

theorem search_filter_fields_witness:
  "map_of (search_filter
      \<lparr>sa_query = ''q'', sa_entity = Some ''e1'', sa_memory_type = Some ''all'',
        sa_source_platform = None, sa_limit = None, sa_min_score = None\<rparr>) ''entity_name''
     = Some ''e1'' \<and>
   toolSearch example_env empty_world
      \<lparr>sa_query = ''q'', sa_entity = Some ''e1'', sa_memory_type = Some ''all'',
        sa_source_platform = None, sa_limit = None, sa_min_score = None\<rparr>
     = Inr \<lparr>sr_query = ''q'', sr_count = 0, sr_memories = []\<rparr> \<and>
   (\<exists>emb ms. generateEmbedding example_env empty_world ''q'' = Inr emb \<and>
      VECTORIZE_query example_env empty_world emb
        (search_queryOptions
           \<lparr>sa_query = ''q'', sa_entity = Some ''e1'', sa_memory_type = Some ''all'',
             sa_source_platform = None, sa_limit = None, sa_min_score = None\<rparr>) = Inr ms)"
proof -
  have run: "toolSearch example_env empty_world
      \<lparr>sa_query = ''q'', sa_entity = Some ''e1'', sa_memory_type = Some ''all'',
        sa_source_platform = None, sa_limit = None, sa_min_score = None\<rparr>
     = Inr \<lparr>sr_query = ''q'', sr_count = 0, sr_memories = []\<rparr>"
    by (simp add: toolSearch_def example_env_def generateEmbedding_def)
  from search_filter_fields
    [of "\<lparr>sa_query = ''q'', sa_entity = Some ''e1'', sa_memory_type = Some ''all'',
        sa_source_platform = None, sa_limit = None, sa_min_score = None\<rparr>" "''e1''"
        example_env empty_world "\<lparr>sr_query = ''q'', sr_count = 0, sr_memories = []\<rparr>"] run
  show ?thesis by simp
qed

text \<open>
  C3 as stated fails: \<open>all\<close> passed for \<open>memory_type\<close> and \<open>source_platform\<close> stays in
  the filter, and the query is restricted by it.
\<close>

theorem search_filter_all_kept:
  "search_filter \<lparr>sa_query = ''q'', sa_entity = None, sa_memory_type = Some ''all'',
                   sa_source_platform = Some ''all'', sa_limit = None, sa_min_score = None\<rparr>
     = [(''memory_type'', ''all''), (''source_platform'', ''all'')] \<and>
   qo_filter (search_queryOptions
      \<lparr>sa_query = ''q'', sa_entity = None, sa_memory_type = Some ''all'',
        sa_source_platform = Some ''all'', sa_limit = None, sa_min_score = None\<rparr>)
     = Some [(''memory_type'', ''all''), (''source_platform'', ''all'')]"
  by (simp add: search_filter_def search_queryOptions_def)

section \<open>Properties of the grounding assembler\<close>







section \<open>Properties of the memory writer\<close>

subsection \<open>The loop over the chunks\<close>

lemma generateId_world: "snd (generateId env w) = w\<lparr>uuids_drawn := Suc (uuids_drawn w)\<rparr>"
  by (simp add: generateId_def)

lemma ingest_chunk_Inl:
  assumes "ingest_chunk env args now n i chunk w = (Inl e, w')"
  shows "VECTORIZE w' = VECTORIZE w \<and> uuids_drawn w' = Suc (uuids_drawn w)"
  using assms
  by (auto simp: ingest_chunk_def generateId_def Let_def split: sum.splits if_splits prod.splits)

lemma ingest_chunk_Inr:
  assumes "ingest_chunk env args now n i chunk w = (Inr item, w')"
  shows "\<exists>v. VECTORIZE w' = VECTORIZE w @ [v] \<and> uuids_drawn w' = Suc (uuids_drawn w) \<and>
           v_id v = ii_id item \<and> ii_chunk_index item = i \<and> ii_hash item = hashContent env chunk \<and>
           v_namespace v = ia_entity_name args \<and>
           v_metadata v =
             (if length chunk > 500
              then (ingest_metadata args now chunk (hashContent env chunk) i n)
                      (''r2_key'' \<mapsto> JStr (''chunks/'' @ hashContent env chunk @ ''.json''))
              else ingest_metadata args now chunk (hashContent env chunk) i n)"
  using assms
  by (auto simp: ingest_chunk_def generateId_def Let_def split: sum.splits if_splits prod.splits)

lemma ingest_loop_spec:
  assumes "ingest_loop env args now chunks i results w = (res, w')" and "i \<le> length chunks"
  shows "\<exists>vs. VECTORIZE w' = VECTORIZE w @ vs \<and> i + length vs \<le> length chunks \<and>
     (\<forall>j<length vs.
        v_namespace (vs ! j) = ia_entity_name args \<and>
        v_metadata (vs ! j) =
          (if length (chunks ! (i + j)) > 500
           then (ingest_metadata args now (chunks ! (i + j)) (hashContent env (chunks ! (i + j)))
                   (i + j) (length chunks))
                  (''r2_key'' \<mapsto> JStr (''chunks/'' @ hashContent env (chunks ! (i + j)) @ ''.json''))
           else ingest_metadata args now (chunks ! (i + j)) (hashContent env (chunks ! (i + j)))
                   (i + j) (length chunks))) \<and>
     (case res of
        Inl e \<Rightarrow> i + length vs < length chunks \<and>
                 uuids_drawn w' = uuids_drawn w + length vs + 1 \<and>
                 (\<exists>wf. fst (ingest_chunk env args now (length chunks) (i + length vs)
                              (chunks ! (i + length vs)) wf) = Inl e)
      | Inr items \<Rightarrow> i + length vs = length chunks \<and>
                 uuids_drawn w' = uuids_drawn w + length vs \<and>
                 map ii_id items = map ii_id results @ map v_id vs)"
  using assms
proof (induction env args now chunks i results w rule: ingest_loop.induct)
  case (1 env args now chunks i results w)
  show ?case
  proof (cases "i < length chunks")
    case False
    with "1.prems" have "res = Inr results" "w' = w" "i = length chunks"
      by (simp_all add: ingest_loop.simps)
    then show ?thesis by (intro exI [of _ "[]"]) simp
  next
    case True
    obtain r1 w1 where c: "ingest_chunk env args now (length chunks) i (chunks ! i) w = (r1, w1)"
      by (cases "ingest_chunk env args now (length chunks) i (chunks ! i) w") auto
    show ?thesis
    proof (cases r1)
      case (Inl e)
      with "1.prems" True c have "res = Inl e" "w' = w1"
        by (simp_all add: ingest_loop.simps)
      moreover from c Inl ingest_chunk_Inl [of env args now "length chunks" i "chunks ! i" w e w1]
      have "VECTORIZE w1 = VECTORIZE w" "uuids_drawn w1 = Suc (uuids_drawn w)" by simp_all
      moreover from c Inl
      have "fst (ingest_chunk env args now (length chunks) i (chunks ! i) w) = Inl e" by simp
      ultimately show ?thesis using True
        by (intro exI [of _ "[]"]) auto
    next
      case (Inr item)
      with "1.prems" True c
      have rec: "ingest_loop env args now chunks (i + 1) (results @ [item]) w1 = (res, w')"
        by (simp add: ingest_loop.simps)
      from c Inr ingest_chunk_Inr [of env args now "length chunks" i "chunks ! i" w item w1]
      obtain v where v: "VECTORIZE w1 = VECTORIZE w @ [v]" "uuids_drawn w1 = Suc (uuids_drawn w)"
        "v_id v = ii_id item" "v_namespace v = ia_entity_name args"
        "v_metadata v =
             (if length (chunks ! i) > 500
              then (ingest_metadata args now (chunks ! i) (hashContent env (chunks ! i)) i (length chunks))
                      (''r2_key'' \<mapsto> JStr (''chunks/'' @ hashContent env (chunks ! i) @ ''.json''))
              else ingest_metadata args now (chunks ! i) (hashContent env (chunks ! i)) i (length chunks))"
        by auto
      from True have le: "i + 1 \<le> length chunks" by simp
      from "1.IH" [OF True c [symmetric] Inr rec le]
      obtain vs where vs: "VECTORIZE w' = VECTORIZE w1 @ vs" "i + 1 + length vs \<le> length chunks"
        and md: "\<forall>j<length vs.
        v_namespace (vs ! j) = ia_entity_name args \<and>
        v_metadata (vs ! j) =
          (if length (chunks ! (i + 1 + j)) > 500
           then (ingest_metadata args now (chunks ! (i + 1 + j)) (hashContent env (chunks ! (i + 1 + j)))
                   (i + 1 + j) (length chunks))
                  (''r2_key'' \<mapsto> JStr (''chunks/'' @ hashContent env (chunks ! (i + 1 + j)) @ ''.json''))
           else ingest_metadata args now (chunks ! (i + 1 + j)) (hashContent env (chunks ! (i + 1 + j)))
                   (i + 1 + j) (length chunks))"
        and rs: "(case res of
        Inl e \<Rightarrow> i + 1 + length vs < length chunks \<and>
                 uuids_drawn w' = uuids_drawn w1 + length vs + 1 \<and>
                 (\<exists>wf. fst (ingest_chunk env args now (length chunks) (i + 1 + length vs)
                              (chunks ! (i + 1 + length vs)) wf) = Inl e)
      | Inr items \<Rightarrow> i + 1 + length vs = length chunks \<and>
                 uuids_drawn w' = uuids_drawn w1 + length vs \<and>
                 map ii_id items = map ii_id (results @ [item]) @ map v_id vs)"
        by blast
      have md': "\<forall>j<length (v # vs).
        v_namespace ((v # vs) ! j) = ia_entity_name args \<and>
        v_metadata ((v # vs) ! j) =
          (if length (chunks ! (i + j)) > 500
           then (ingest_metadata args now (chunks ! (i + j)) (hashContent env (chunks ! (i + j)))
                   (i + j) (length chunks))
                  (''r2_key'' \<mapsto> JStr (''chunks/'' @ hashContent env (chunks ! (i + j)) @ ''.json''))
           else ingest_metadata args now (chunks ! (i + j)) (hashContent env (chunks ! (i + j)))
                   (i + j) (length chunks))"
      proof (intro allI impI)
        fix j assume "j < length (v # vs)"
        then show "v_namespace ((v # vs) ! j) = ia_entity_name args \<and>
        v_metadata ((v # vs) ! j) =
          (if length (chunks ! (i + j)) > 500
           then (ingest_metadata args now (chunks ! (i + j)) (hashContent env (chunks ! (i + j)))
                   (i + j) (length chunks))
                  (''r2_key'' \<mapsto> JStr (''chunks/'' @ hashContent env (chunks ! (i + j)) @ ''.json''))
           else ingest_metadata args now (chunks ! (i + j)) (hashContent env (chunks ! (i + j)))
                   (i + j) (length chunks))"
        proof (cases j)
          case 0
          with v show ?thesis by simp
        next
          case (Suc j')
          with \<open>j < length (v # vs)\<close> have "j' < length vs" by simp
          with md have "v_namespace (vs ! j') = ia_entity_name args \<and>
        v_metadata (vs ! j') =
          (if length (chunks ! (i + 1 + j')) > 500
           then (ingest_metadata args now (chunks ! (i + 1 + j')) (hashContent env (chunks ! (i + 1 + j')))
                   (i + 1 + j') (length chunks))
                  (''r2_key'' \<mapsto> JStr (''chunks/'' @ hashContent env (chunks ! (i + 1 + j')) @ ''.json''))
           else ingest_metadata args now (chunks ! (i + 1 + j')) (hashContent env (chunks ! (i + 1 + j')))
                   (i + 1 + j') (length chunks))" by blast
          with Suc show ?thesis by simp
        qed
      qed
      have rs': "(case res of
        Inl e \<Rightarrow> i + length (v # vs) < length chunks \<and>
                 uuids_drawn w' = uuids_drawn w + length (v # vs) + 1 \<and>
                 (\<exists>wf. fst (ingest_chunk env args now (length chunks) (i + length (v # vs))
                              (chunks ! (i + length (v # vs))) wf) = Inl e)
      | Inr items \<Rightarrow> i + length (v # vs) = length chunks \<and>
                 uuids_drawn w' = uuids_drawn w + length (v # vs) \<and>
                 map ii_id items = map ii_id results @ map v_id (v # vs))"
        using rs v by (cases res) (simp_all add: add.commute add.left_commute)
      show ?thesis
        apply (rule exI [of _ "v # vs"])
        using vs v md' rs' by simp
    qed
  qed
qed

lemma toolIngest_loop:
  assumes run: "toolIngest env args now w = (res, w')"
    and ch: "chunkText (ia_content args) (parseInt_or (MAX_CHUNK_TOKENS env) 400)
               (parseInt_or (CHUNK_OVERLAP env) 50) = Inr chunks"
  shows "\<exists>lres. ingest_loop env args now chunks 0 [] w = (lres, w') \<and>
     res = (case lres of Inl e \<Rightarrow> Inl e
                 | Inr results \<Rightarrow> Inr \<lparr>ir_success = True, ir_entity = ia_entity_name args,
                             ir_chunks_created = length results,
                             ir_memory_ids = map ii_id results\<rparr>)"
  using run ch by (auto simp: toolIngest_def Let_def split: prod.splits sum.splits)

lemma toolIngest_spec:
  assumes run: "toolIngest env args now w = (res, w')"
    and ch: "chunkText (ia_content args) (parseInt_or (MAX_CHUNK_TOKENS env) 400)
               (parseInt_or (CHUNK_OVERLAP env) 50) = Inr chunks"
  shows "\<exists>vs. VECTORIZE w' = VECTORIZE w @ vs \<and> length vs \<le> length chunks \<and>
     (\<forall>j<length vs.
        v_namespace (vs ! j) = ia_entity_name args \<and>
        v_metadata (vs ! j) =
          (if length (chunks ! j) > 500
           then (ingest_metadata args now (chunks ! j) (hashContent env (chunks ! j))
                   j (length chunks))
                  (''r2_key'' \<mapsto> JStr (''chunks/'' @ hashContent env (chunks ! j) @ ''.json''))
           else ingest_metadata args now (chunks ! j) (hashContent env (chunks ! j))
                   j (length chunks))) \<and>
     (case res of
        Inl e \<Rightarrow> length vs < length chunks \<and>
                 uuids_drawn w' = uuids_drawn w + length vs + 1 \<and>
                 (\<exists>wf. fst (ingest_chunk env args now (length chunks) (length vs)
                              (chunks ! (length vs)) wf) = Inl e)
      | Inr r \<Rightarrow> length vs = length chunks \<and>
                 uuids_drawn w' = uuids_drawn w + length vs \<and>
                 r = \<lparr>ir_success = True, ir_entity = ia_entity_name args,
                      ir_chunks_created = length chunks, ir_memory_ids = map v_id vs\<rparr>)"
proof -
  obtain lres where l: "ingest_loop env args now chunks 0 [] w = (lres, w')"
    and res: "res = (case lres of Inl e \<Rightarrow> Inl e
                 | Inr results \<Rightarrow> Inr \<lparr>ir_success = True, ir_entity = ia_entity_name args,
                             ir_chunks_created = length results,
                             ir_memory_ids = map ii_id results\<rparr>)"
    using toolIngest_loop [OF run ch] by blast
  from ingest_loop_spec [OF l le0] obtain vs where
    all: "VECTORIZE w' = VECTORIZE w @ vs \<and> 0 + length vs \<le> length chunks \<and>
     (\<forall>j<length vs.
        v_namespace (vs ! j) = ia_entity_name args \<and>
        v_metadata (vs ! j) =
          (if length (chunks ! (0 + j)) > 500
           then (ingest_metadata args now (chunks ! (0 + j)) (hashContent env (chunks ! (0 + j)))
                   (0 + j) (length chunks))
                  (''r2_key'' \<mapsto> JStr (''chunks/'' @ hashContent env (chunks ! (0 + j)) @ ''.json''))
           else ingest_metadata args now (chunks ! (0 + j)) (hashContent env (chunks ! (0 + j)))
                   (0 + j) (length chunks))) \<and>
     (case lres of
        Inl e \<Rightarrow> 0 + length vs < length chunks \<and>
                 uuids_drawn w' = uuids_drawn w + length vs + 1 \<and>
                 (\<exists>wf. fst (ingest_chunk env args now (length chunks) (0 + length vs)
                              (chunks ! (0 + length vs)) wf) = Inl e)
      | Inr items \<Rightarrow> 0 + length vs = length chunks \<and>
                 uuids_drawn w' = uuids_drawn w + length vs \<and>
                 map ii_id items = map ii_id ([]::ingest_item list) @ map v_id vs)" ..
  then have vs: "VECTORIZE w' = VECTORIZE w @ vs" "length vs \<le> length chunks"
    and md: "\<forall>j<length vs.
        v_namespace (vs ! j) = ia_entity_name args \<and>
        v_metadata (vs ! j) =
          (if length (chunks ! j) > 500
           then (ingest_metadata args now (chunks ! j) (hashContent env (chunks ! j))
                   j (length chunks))
                  (''r2_key'' \<mapsto> JStr (''chunks/'' @ hashContent env (chunks ! j) @ ''.json''))
           else ingest_metadata args now (chunks ! j) (hashContent env (chunks ! j))
                   j (length chunks))"
    and rs: "(case lres of
        Inl e \<Rightarrow> length vs < length chunks \<and>
                 uuids_drawn w' = uuids_drawn w + length vs + 1 \<and>
                 (\<exists>wf. fst (ingest_chunk env args now (length chunks) (length vs)
                              (chunks ! (length vs)) wf) = Inl e)
      | Inr items \<Rightarrow> length vs = length chunks \<and>
                 uuids_drawn w' = uuids_drawn w + length vs \<and>
                 map ii_id items = map v_id vs)"
    by (cases lres; simp)+
  have "(case res of
        Inl e \<Rightarrow> length vs < length chunks \<and>
                 uuids_drawn w' = uuids_drawn w + length vs + 1 \<and>
                 (\<exists>wf. fst (ingest_chunk env args now (length chunks) (length vs)
                              (chunks ! (length vs)) wf) = Inl e)
      | Inr r \<Rightarrow> length vs = length chunks \<and>
                 uuids_drawn w' = uuids_drawn w + length vs \<and>
                 r = \<lparr>ir_success = True, ir_entity = ia_entity_name args,
                      ir_chunks_created = length chunks, ir_memory_ids = map v_id vs\<rparr>)"
  proof (cases lres)
    case (Inl e)
    with rs res show ?thesis by simp
  next
    case (Inr items)
    with rs have m: "map ii_id items = map v_id vs" and n: "length vs = length chunks"
      and u: "uuids_drawn w' = uuids_drawn w + length vs" by simp_all
    have "length (map ii_id items) = length (map v_id vs)" by (simp only: m)
    then have li: "length items = length chunks" using n by simp
    from res Inr have "res = Inr \<lparr>ir_success = True, ir_entity = ia_entity_name args,
                             ir_chunks_created = length items,
                             ir_memory_ids = map ii_id items\<rparr>" by simp
    then show ?thesis using m n u li by simp
  qed
  with vs md show ?thesis
    by (intro exI [of _ vs] conjI)
qed

lemma ingest_metadata_caller:
  "ia_metadata args = Some md \<Longrightarrow> md k = Some val \<Longrightarrow>
     ingest_metadata args now chunk hash i n k = Some val"
  by (simp add: ingest_metadata_def Let_def map_add_Some_iff)

lemma ingest_metadata_r2_key:
  "ingest_metadata args now chunk hash i n ''r2_key'' =
     (case ia_metadata args of None \<Rightarrow> None | Some md \<Rightarrow> md ''r2_key'')"
  by (simp add: ingest_metadata_def Let_def map_add_def split: option.splits)

lemma store_metadata_caller:
  "st_metadata args = Some md \<Longrightarrow> md k = Some val \<Longrightarrow>
     store_metadata args now hash k = Some val"
  by (simp add: store_metadata_def Let_def map_add_Some_iff)

lemma toolStore_spec:
  assumes "toolStore env args now w = (res, w')"
  shows "(case res of
            Inl e \<Rightarrow> VECTORIZE w' = VECTORIZE w
          | Inr r \<Rightarrow> \<exists>v. VECTORIZE w' = VECTORIZE w @ [v] \<and> v_id v = sto_memory_id r \<and>
                       v_namespace v = st_entity_name args \<and>
                       v_metadata v = store_metadata args now (hashContent env (st_text args)))"
  using assms
  by (auto simp: toolStore_def generateId_def Let_def split: sum.splits prod.splits)

lemma slice_0: "0 \<le> n \<Longrightarrow> slice s 0 n = take (nat n) s"
  by (auto simp: slice_def slice_index_def Let_def min_def)

subsection \<open>The collaborator calls\<close>

lemmas chunk_call_defs =
  chunk_written_def chunk_failed_def chunk_world_def chunk_put_world_def chunk_vector_def
  chunk_blob_def chunk_blob_key_def

lemma chunk_written_run:
  "chunk_written env args now n i chunk w w' \<Longrightarrow>
     ingest_chunk env args now n i chunk w =
       (Inr \<lparr>ii_id = fst (generateId env w), ii_hash = hashContent env chunk,
              ii_chunk_index = i\<rparr>, w')"
  by (auto simp: ingest_chunk_def chunk_call_defs generateId_def generateEmbedding_def Let_def
      split: sum.splits if_splits)

lemma run_chunk_written:
  "ingest_chunk env args now n i chunk w = (Inr item, w') \<Longrightarrow>
     chunk_written env args now n i chunk w w'"
  by (auto simp: ingest_chunk_def chunk_call_defs generateId_def generateEmbedding_def Let_def
      split: sum.splits if_splits)

lemma chunk_failed_run:
  "chunk_failed env args now n i chunk w e w' \<Longrightarrow>
     ingest_chunk env args now n i chunk w = (Inl e, w')"
  by (auto simp: ingest_chunk_def chunk_call_defs generateId_def generateEmbedding_def Let_def
      split: sum.splits if_splits)

lemma run_chunk_failed:
  "ingest_chunk env args now n i chunk w = (Inl e, w') \<Longrightarrow>
     chunk_failed env args now n i chunk w e w'"
  by (auto simp: ingest_chunk_def chunk_call_defs generateId_def generateEmbedding_def Let_def
      split: sum.splits if_splits)

lemma chunk_written_VECTORIZE:
  "chunk_written env args now n i chunk w w' \<Longrightarrow>
     length (VECTORIZE w') = Suc (length (VECTORIZE w))"
  by (auto simp: chunk_call_defs split: sum.splits if_splits)

lemma chunk_failed_VECTORIZE:
  "chunk_failed env args now n i chunk w e w' \<Longrightarrow> VECTORIZE w' = VECTORIZE w"
  by (auto simp: chunk_call_defs split: sum.splits if_splits)

lemma ingest_loop_trace:
  assumes "ingest_loop env args now chunks i results w = (res, w')" and "i \<le> length chunks"
  shows "\<exists>ws. ws \<noteq> [] \<and> ws ! 0 = w \<and> i + length ws \<le> Suc (length chunks) \<and>
     (\<forall>j. Suc j < length ws \<longrightarrow>
        chunk_written env args now (length chunks) (i + j) (chunks ! (i + j))
          (ws ! j) (ws ! Suc j)) \<and>
     length (VECTORIZE (last ws)) = length (VECTORIZE w) + (length ws - 1) \<and>
     (case res of
        Inl e \<Rightarrow> i + length ws \<le> length chunks \<and>
                 chunk_failed env args now (length chunks) (i + (length ws - 1))
                   (chunks ! (i + (length ws - 1))) (last ws) e w'
      | Inr items \<Rightarrow> i + length ws = Suc (length chunks) \<and> w' = last ws)"
  using assms
proof (induction env args now chunks i results w rule: ingest_loop.induct)
  case (1 env args now chunks i results w)
  show ?case
  proof (cases "i < length chunks")
    case False
    with "1.prems" have "res = Inr results" "w' = w" "i = length chunks"
      by (simp_all add: ingest_loop.simps)
    then show ?thesis by (intro exI [of _ "[w]"]) simp
  next
    case True
    obtain r1 w1 where c: "ingest_chunk env args now (length chunks) i (chunks ! i) w = (r1, w1)"
      by (cases "ingest_chunk env args now (length chunks) i (chunks ! i) w") auto
    show ?thesis
    proof (cases r1)
      case (Inl e)
      with "1.prems" True c have "res = Inl e" "w' = w1"
        by (simp_all add: ingest_loop.simps)
      moreover from c Inl
      have "chunk_failed env args now (length chunks) i (chunks ! i) w e w1"
        by (simp add: run_chunk_failed)
      ultimately show ?thesis using True
        by (intro exI [of _ "[w]"]) simp
    next
      case (Inr item)
      with "1.prems" True c
      have rec: "ingest_loop env args now chunks (i + 1) (results @ [item]) w1 = (res, w')"
        by (simp add: ingest_loop.simps)
      from c Inr have wr: "chunk_written env args now (length chunks) i (chunks ! i) w w1"
        by (simp add: run_chunk_written)
      from True have le: "i + 1 \<le> length chunks" by simp
      from "1.IH" [OF True c [symmetric] Inr rec le]
      obtain ws where ws: "ws \<noteq> []" "ws ! 0 = w1" "i + 1 + length ws \<le> Suc (length chunks)"
        and tr: "\<forall>j. Suc j < length ws \<longrightarrow>
            chunk_written env args now (length chunks) (i + 1 + j) (chunks ! (i + 1 + j))
              (ws ! j) (ws ! Suc j)"
        and vl: "length (VECTORIZE (last ws)) = length (VECTORIZE w1) + (length ws - 1)"
        and rs: "(case res of
            Inl e \<Rightarrow> i + 1 + length ws \<le> length chunks \<and>
                 chunk_failed env args now (length chunks) (i + 1 + (length ws - 1))
                   (chunks ! (i + 1 + (length ws - 1))) (last ws) e w'
          | Inr items \<Rightarrow> i + 1 + length ws = Suc (length chunks) \<and> w' = last ws)"
        by blast
      have tr': "\<forall>j. Suc j < length (w # ws) \<longrightarrow>
            chunk_written env args now (length chunks) (i + j) (chunks ! (i + j))
              ((w # ws) ! j) ((w # ws) ! Suc j)"
      proof (intro allI impI)
        fix j assume j: "Suc j < length (w # ws)"
        show "chunk_written env args now (length chunks) (i + j) (chunks ! (i + j))
              ((w # ws) ! j) ((w # ws) ! Suc j)"
        proof (cases j)
          case 0
          with wr ws show ?thesis by simp
        next
          case (Suc j')
          with j have "Suc j' < length ws" by simp
          with tr have "chunk_written env args now (length chunks) (i + 1 + j')
              (chunks ! (i + 1 + j')) (ws ! j') (ws ! Suc j')" by blast
          with Suc show ?thesis by simp
        qed
      qed
      from ws have pos: "0 < length ws" by simp
      have vl': "length (VECTORIZE (last (w # ws))) = length (VECTORIZE w) + (length (w # ws) - 1)"
        using vl ws pos chunk_written_VECTORIZE [OF wr] by simp
      have rs': "(case res of
            Inl e \<Rightarrow> i + length (w # ws) \<le> length chunks \<and>
                 chunk_failed env args now (length chunks) (i + (length (w # ws) - 1))
                   (chunks ! (i + (length (w # ws) - 1))) (last (w # ws)) e w'
          | Inr items \<Rightarrow> i + length (w # ws) = Suc (length chunks) \<and> w' = last (w # ws))"
      proof (cases res)
        case (Inl e)
        have "i + 1 + (length ws - 1) = i + length ws" using pos by simp
        with rs Inl ws show ?thesis by simp
      next
        case (Inr items)
        with rs ws show ?thesis by simp
      qed
      show ?thesis
        apply (rule exI [of _ "w # ws"])
        using ws tr' vl' rs' by simp
    qed
  qed
qed

lemma ingest_loop_forward:
  "length ws = Suc n \<Longrightarrow> i + n < length chunks \<Longrightarrow>
   (\<forall>j<n. chunk_written env args now (length chunks) (i + j) (chunks ! (i + j))
             (ws ! j) (ws ! Suc j)) \<Longrightarrow>
   chunk_failed env args now (length chunks) (i + n) (chunks ! (i + n)) (ws ! n) e wfail \<Longrightarrow>
   ingest_loop env args now chunks i results (ws ! 0) = (Inl e, wfail)"
proof (induction n arbitrary: i results ws)
  case 0
  from chunk_failed_run [OF "0.prems"(4)] "0.prems"(2) show ?case
    by (subst ingest_loop.simps) simp
next
  case (Suc n)
  from Suc.prems(1) obtain w0 ws' where ws: "ws = w0 # ws'" "length ws' = Suc n"
    by (cases ws) auto
  from Suc.prems(3) ws
  have w0: "chunk_written env args now (length chunks) i (chunks ! i) w0 (ws' ! 0)"
    by (auto dest: spec [of _ 0])
  have tr: "\<forall>j<n. chunk_written env args now (length chunks) (i + 1 + j) (chunks ! (i + 1 + j))
             (ws' ! j) (ws' ! Suc j)"
  proof (intro allI impI)
    fix j assume "j < n"
    then have "Suc j < Suc n" by simp
    with Suc.prems(3) have "chunk_written env args now (length chunks) (i + Suc j)
        (chunks ! (i + Suc j)) (ws ! Suc j) (ws ! Suc (Suc j))" by blast
    with ws show "chunk_written env args now (length chunks) (i + 1 + j) (chunks ! (i + 1 + j))
             (ws' ! j) (ws' ! Suc j)" by simp
  qed
  from Suc.prems(4) ws
  have fl: "chunk_failed env args now (length chunks) (i + 1 + n) (chunks ! (i + 1 + n))
      (ws' ! n) e wfail" by simp
  from Suc.prems(2) have lt: "i + 1 + n < length chunks" "i < length chunks" by simp_all
  from Suc.IH [OF ws(2) lt(1) tr fl]
  have "ingest_loop env args now chunks (i + 1)
      (results @ [\<lparr>ii_id = fst (generateId env w0), ii_hash = hashContent env (chunks ! i),
                    ii_chunk_index = i\<rparr>]) (ws' ! 0) = (Inl e, wfail)" .
  with chunk_written_run [OF w0] lt(2) ws show ?case
    by (subst ingest_loop.simps) simp
qed

lemma ingest_loop_success:
  "length ws = Suc n \<Longrightarrow> i + n = length chunks \<Longrightarrow>
   (\<forall>j<n. chunk_written env args now (length chunks) (i + j) (chunks ! (i + j))
             (ws ! j) (ws ! Suc j)) \<Longrightarrow>
   \<exists>items. ingest_loop env args now chunks i results (ws ! 0) = (Inr (results @ items), ws ! n)
      \<and> length items = n"
proof (induction n arbitrary: i results ws)
  case 0
  then show ?case by (subst ingest_loop.simps) simp
next
  case (Suc n)
  from Suc.prems(1) obtain w0 ws' where ws: "ws = w0 # ws'" "length ws' = Suc n"
    by (cases ws) auto
  from Suc.prems(3) ws
  have w0: "chunk_written env args now (length chunks) i (chunks ! i) w0 (ws' ! 0)"
    by (auto dest: spec [of _ 0])
  have tr: "\<forall>j<n. chunk_written env args now (length chunks) (i + 1 + j) (chunks ! (i + 1 + j))
             (ws' ! j) (ws' ! Suc j)"
  proof (intro allI impI)
    fix j assume "j < n"
    then have "Suc j < Suc n" by simp
    with Suc.prems(3) have "chunk_written env args now (length chunks) (i + Suc j)
        (chunks ! (i + Suc j)) (ws ! Suc j) (ws ! Suc (Suc j))" by blast
    with ws show "chunk_written env args now (length chunks) (i + 1 + j) (chunks ! (i + 1 + j))
             (ws' ! j) (ws' ! Suc j)" by simp
  qed
  from Suc.prems(2) have lt: "i + 1 + n = length chunks" "i < length chunks" by simp_all
  from Suc.IH [OF ws(2) lt(1) tr]
  obtain items where it: "ingest_loop env args now chunks (i + 1)
      (results @ [\<lparr>ii_id = fst (generateId env w0), ii_hash = hashContent env (chunks ! i),
                    ii_chunk_index = i\<rparr>]) (ws' ! 0)
      = (Inr ((results @ [\<lparr>ii_id = fst (generateId env w0),
                            ii_hash = hashContent env (chunks ! i),
                            ii_chunk_index = i\<rparr>]) @ items), ws' ! n)"
    and len: "length items = n" by blast
  from it chunk_written_run [OF w0] lt(2) ws
  have "ingest_loop env args now chunks i results (ws ! 0)
      = (Inr (results @ (\<lparr>ii_id = fst (generateId env w0),
                            ii_hash = hashContent env (chunks ! i),
                            ii_chunk_index = i\<rparr> # items)), ws ! Suc n)"
    by (subst ingest_loop.simps) simp
  with len show ?case by (intro exI [of _ "\<lparr>ii_id = fst (generateId env w0),
                            ii_hash = hashContent env (chunks ! i),
                            ii_chunk_index = i\<rparr> # items"]) simp
qed

lemma toolIngest_success:
  assumes ch: "chunkText (ia_content args) (parseInt_or (MAX_CHUNK_TOKENS env) 400)
               (parseInt_or (CHUNK_OVERLAP env) 50) = Inr chunks"
    and len: "length ws = Suc (length chunks)" and w0: "ws ! 0 = w"
    and tr: "\<forall>j<length chunks. chunk_written env args now (length chunks) j (chunks ! j)
               (ws ! j) (ws ! Suc j)"
  shows "\<exists>r. toolIngest env args now w = (Inr r, ws ! length chunks) \<and>
             ir_chunks_created r = length chunks"
proof -
  from tr have tr': "\<forall>j<length chunks. chunk_written env args now (length chunks) (0 + j)
      (chunks ! (0 + j)) (ws ! j) (ws ! Suc j)" by simp
  from ingest_loop_success [OF len _ tr', of "[]"] w0
  obtain items where "ingest_loop env args now chunks 0 [] w = (Inr items, ws ! length chunks)"
    "length items = length chunks" by auto
  with ch show ?thesis by (simp add: toolIngest_def Let_def)
qed

lemma toolStore_run:
  "AI_run env (chunk_world w) (st_text args) = Inr emb \<Longrightarrow>
   VECTORIZE_upsert env (chunk_world w) (store_vector env args now w emb) = Inr () \<Longrightarrow>
   toolStore env args now w =
     (Inr \<lparr>sto_success = True, sto_memory_id = fst (generateId env w),
            sto_entity = st_entity_name args, sto_type = st_memory_type args\<rparr>,
      (chunk_world w)\<lparr>VECTORIZE := VECTORIZE w @ [store_vector env args now w emb]\<rparr>)"
  by (simp add: toolStore_def store_vector_def chunk_world_def generateId_def
      generateEmbedding_def Let_def)

subsection \<open>Runs of the example collaborators\<close>

lemma example_args_chunks:
  "chunkText (ia_content example_args) (parseInt_or (MAX_CHUNK_TOKENS example_failing_env) 400)
      (parseInt_or (CHUNK_OVERLAP example_failing_env) 50)
     = Inr [''aaaaaaaa'', ''aaaaaaaa'', ''aaaa'']"
  by (simp add: example_args_def example_failing_env_def example_env_def parseInt_or_def
      chunkText_def chunk_loop.simps MAX_ARRAY_LENGTH_def window_end_def slice_def
      slice_index_def lastBreak_def lastIndexOf_def trim_def is_ws_def NL_def)

lemma example_first_chunk_written:
  "chunk_written example_failing_env example_args example_now 3 0 ''aaaaaaaa''
     empty_world example_world_written"
  by (simp add: chunk_call_defs generateId_def hashContent_def slice_def slice_index_def
      example_failing_env_def example_env_def empty_world_def example_world_written_def
      example_args_def example_now_def)

lemma example_second_chunk_failed:
  "chunk_failed example_failing_env example_args example_now 3 1 ''aaaaaaaa''
     example_world_written AIError example_world_failed"
  by (simp add: chunk_call_defs example_failing_env_def example_env_def
      example_world_written_def example_world_failed_def example_args_def example_now_def)

lemma example_failing_chunks:
  "chunkText ''aaaaaaaaaaaa'' (parseInt_or (MAX_CHUNK_TOKENS example_failing_env) 400)
      (parseInt_or (CHUNK_OVERLAP example_failing_env) 50)
     = Inr [''aaaaaaaa'', ''aaaaaaaa'', ''aaaa'']"
  by (simp add: example_failing_env_def example_env_def parseInt_or_def chunkText_def
      chunk_loop.simps MAX_ARRAY_LENGTH_def window_end_def slice_def slice_index_def lastBreak_def lastIndexOf_def
      trim_def is_ws_def NL_def)

lemma example_failing_run:
  "toolIngest example_failing_env
      \<lparr>ia_content = ''aaaaaaaaaaaa'', ia_entity_name = ''e1'', ia_source_platform = ''p'',
        ia_memory_type = ''note'', ia_metadata = None\<rparr> ''2026-01-15T00:00:00.000Z'' empty_world
     = (Inl AIError,
             \<lparr>R2 = [],
              VECTORIZE =
                [\<lparr>v_id = ''mem_1b4e28ba2fa111d2'', v_values = [0.5], v_namespace = ''e1'',
                  v_metadata =
                    ingest_metadata
                      \<lparr>ia_content = ''aaaaaaaaaaaa'', ia_entity_name = ''e1'',
                        ia_source_platform = ''p'', ia_memory_type = ''note'',
                        ia_metadata = None\<rparr>
                      ''2026-01-15T00:00:00.000Z'' ''aaaaaaaa'' ''00'' 0 3\<rparr>],
              uuids_drawn = 2\<rparr>)"
  using example_failing_chunks
  by (simp add: toolIngest_def Let_def)
     (simp add: ingest_loop.simps ingest_chunk_def generateId_def generateEmbedding_def
        hashContent_def slice_def slice_index_def example_env_def empty_world_def
        example_failing_env_def Let_def numeral_3_eq_3)

lemma example_override_run:
  "toolIngest example_env
      \<lparr>ia_content = ''hello'', ia_entity_name = ''e1'', ia_source_platform = ''p'',
        ia_memory_type = ''note'', ia_metadata = Some [''chunk_hash'' \<mapsto> JStr ''mine'']\<rparr>
      ''2026-01-15T00:00:00.000Z'' empty_world
     = (Inr \<lparr>ir_success = True, ir_entity = ''e1'', ir_chunks_created = 1,
                  ir_memory_ids = [''mem_1b4e28ba2fa111d2'']\<rparr>,
             \<lparr>R2 = [],
              VECTORIZE =
                [\<lparr>v_id = ''mem_1b4e28ba2fa111d2'', v_values = [0.5], v_namespace = ''e1'',
                  v_metadata =
                    ingest_metadata
                      \<lparr>ia_content = ''hello'', ia_entity_name = ''e1'',
                        ia_source_platform = ''p'', ia_memory_type = ''note'',
                        ia_metadata = Some [''chunk_hash'' \<mapsto> JStr ''mine'']\<rparr>
                      ''2026-01-15T00:00:00.000Z'' ''hello'' ''00'' 0 1\<rparr>],
              uuids_drawn = 1\<rparr>)"
  by (simp add: toolIngest_def Let_def chunkText_def parseInt_or_def example_env_def)
     (simp add: ingest_loop.simps ingest_chunk_def generateId_def generateEmbedding_def
        hashContent_def slice_def slice_index_def empty_world_def Let_def)

lemma example_override_store:
  "toolStore example_env
      \<lparr>st_text = ''hi'', st_entity_name = ''e1'', st_source_platform = None,
        st_memory_type = ''note'', st_metadata = Some [''chunk_hash'' \<mapsto> JStr ''mine'']\<rparr>
      ''2026-01-15T00:00:00.000Z'' empty_world
     = (Inr \<lparr>sto_success = True, sto_memory_id = ''mem_1b4e28ba2fa111d2'', sto_entity = ''e1'',
             sto_type = ''note''\<rparr>,
        \<lparr>R2 = [],
         VECTORIZE =
           [\<lparr>v_id = ''mem_1b4e28ba2fa111d2'', v_values = [0.5], v_namespace = ''e1'',
             v_metadata =
               store_metadata
                 \<lparr>st_text = ''hi'', st_entity_name = ''e1'', st_source_platform = None,
                   st_memory_type = ''note'',
                   st_metadata = Some [''chunk_hash'' \<mapsto> JStr ''mine'']\<rparr>
                 ''2026-01-15T00:00:00.000Z'' ''00''\<rparr>],
         uuids_drawn = 1\<rparr>)"
  by (simp add: toolStore_def generateId_def generateEmbedding_def hashContent_def slice_def
      slice_index_def example_env_def empty_world_def Let_def)

lemma example_r2_run:
  "toolIngest example_env
      \<lparr>ia_content = replicate 600 CHR ''a'', ia_entity_name = ''e1'', ia_source_platform = ''p'',
        ia_memory_type = ''note'', ia_metadata = Some [''r2_key'' \<mapsto> JStr ''mine'']\<rparr>
      ''2026-01-15T00:00:00.000Z'' empty_world
     = (Inr \<lparr>ir_success = True, ir_entity = ''e1'', ir_chunks_created = 1,
                  ir_memory_ids = [''mem_1b4e28ba2fa111d2'']\<rparr>,
             \<lparr>R2 = [(''chunks/00.json'',
                     \<lparr>r2_hash = ''00'', r2_text = replicate 600 CHR ''a'',
                      r2_metadata =
                        ingest_metadata
                          \<lparr>ia_content = replicate 600 CHR ''a'', ia_entity_name = ''e1'',
                            ia_source_platform = ''p'', ia_memory_type = ''note'',
                            ia_metadata = Some [''r2_key'' \<mapsto> JStr ''mine'']\<rparr>
                          ''2026-01-15T00:00:00.000Z'' (replicate 600 CHR ''a'') ''00'' 0 1\<rparr>)],
              VECTORIZE =
                [\<lparr>v_id = ''mem_1b4e28ba2fa111d2'', v_values = [0.5], v_namespace = ''e1'',
                  v_metadata =
                    (ingest_metadata
                      \<lparr>ia_content = replicate 600 CHR ''a'', ia_entity_name = ''e1'',
                        ia_source_platform = ''p'', ia_memory_type = ''note'',
                        ia_metadata = Some [''r2_key'' \<mapsto> JStr ''mine'']\<rparr>
                      ''2026-01-15T00:00:00.000Z'' (replicate 600 CHR ''a'') ''00'' 0 1)
                    (''r2_key'' \<mapsto> JStr ''chunks/00.json'')\<rparr>],
              uuids_drawn = 1\<rparr>)"
  by (simp add: toolIngest_def Let_def chunkText_def parseInt_or_def example_env_def)
     (simp add: ingest_loop.simps ingest_chunk_def generateId_def generateEmbedding_def
        hashContent_def slice_def slice_index_def empty_world_def Let_def)

lemma example_hello_written:
  "chunk_written example_env
      \<lparr>ia_content = ''hello'', ia_entity_name = ''e1'', ia_source_platform = ''p'',
        ia_memory_type = ''note'', ia_metadata = Some [''chunk_hash'' \<mapsto> JStr ''mine'']\<rparr>
      ''2026-01-15T00:00:00.000Z'' 1 0 ''hello'' empty_world
      \<lparr>R2 = [],
        VECTORIZE =
          [\<lparr>v_id = ''mem_1b4e28ba2fa111d2'', v_values = [0.5], v_namespace = ''e1'',
            v_metadata =
              ingest_metadata
                \<lparr>ia_content = ''hello'', ia_entity_name = ''e1'',
                  ia_source_platform = ''p'', ia_memory_type = ''note'',
                  ia_metadata = Some [''chunk_hash'' \<mapsto> JStr ''mine'']\<rparr>
                ''2026-01-15T00:00:00.000Z'' ''hello'' ''00'' 0 1\<rparr>],
        uuids_drawn = 1\<rparr>"
  by (simp add: chunk_call_defs generateId_def hashContent_def slice_def slice_index_def
      example_env_def empty_world_def)

lemma example_hello_chunks:
  "chunkText ''hello'' (parseInt_or (MAX_CHUNK_TOKENS example_env) 400)
      (parseInt_or (CHUNK_OVERLAP example_env) 50) = Inr [''hello'']"
  by (simp add: chunkText_def parseInt_or_def example_env_def)

lemma example_store_vector:
  "store_vector example_env
      \<lparr>st_text = ''hi'', st_entity_name = ''e1'', st_source_platform = None,
        st_memory_type = ''note'', st_metadata = Some [''chunk_hash'' \<mapsto> JStr ''mine'']\<rparr>
      ''2026-01-15T00:00:00.000Z'' empty_world [0.5]
   = \<lparr>v_id = ''mem_1b4e28ba2fa111d2'', v_values = [0.5], v_namespace = ''e1'',
             v_metadata =
               store_metadata
                 \<lparr>st_text = ''hi'', st_entity_name = ''e1'', st_source_platform = None,
                   st_memory_type = ''note'',
                   st_metadata = Some [''chunk_hash'' \<mapsto> JStr ''mine'']\<rparr>
                 ''2026-01-15T00:00:00.000Z'' ''00''\<rparr>"
  by (simp add: store_vector_def generateId_def hashContent_def slice_def slice_index_def
      example_env_def empty_world_def)

lemma example_long_chunks:
  "chunkText (ia_content example_long_args)
      (parseInt_or (MAX_CHUNK_TOKENS example_put_failing_env) 400)
      (parseInt_or (CHUNK_OVERLAP example_put_failing_env) 50)
     = Inr [replicate 600 CHR ''a'']"
  by (simp add: example_long_args_def example_put_failing_env_def example_env_def
      parseInt_or_def chunkText_def)

lemma example_long_put:
  "R2_put example_put_failing_env (chunk_world empty_world)
      (chunk_blob_key example_put_failing_env (replicate 600 CHR ''a''))
      (chunk_blob example_put_failing_env example_long_args example_now 1 0
         (replicate 600 CHR ''a'')) = Inl R2Error"
  by (simp add: example_put_failing_env_def)

lemma example_long_put_failed:
  "chunk_failed example_put_failing_env example_long_args example_now 1 0
     (replicate 600 CHR ''a'') empty_world R2Error (chunk_world empty_world)"
  by (simp add: chunk_failed_def example_put_failing_env_def example_env_def)

subsection \<open>Failure of a collaborator\<close>

text \<open>
  C1 (amended). Nothing in \<open>toolIngest\<close> catches a collaborator's failure. When the
  content chunks into \<open>chunks\<close> the call returns, with an error or with a result, after
  a run through the worlds \<open>ws\<close>: each chunk before the last world was written, its
  embedding, its put (for a chunk longer than 500 characters) and its upsert having
  succeeded. If then the embedding (\<open>AI_run\<close>), the blob put (\<open>R2_put\<close>) or the index
  upsert (\<open>VECTORIZE_upsert\<close>) fails for the next chunk, the call ends with that error
  and returns neither a count nor identifiers: the chunks before the failed one have
  been upserted, the failed chunk has no vector, and no later chunk is processed (one
  identifier is drawn per chunk started, and exactly one more than the number of
  vectors written has been drawn). The call returns a result only when every chunk was
  written; then \<open>chunks_created\<close> is the number of chunks and \<open>memory_ids\<close> are the
  identifiers of the vectors written, in order. Conversely, whenever the chunks before
  chunk \<open>n\<close> are written through the worlds \<open>ws0\<close> and a collaborator fails for chunk
  \<open>n\<close> with error \<open>e\<close>, the call returns the error \<open>e\<close>.
\<close>

theorem toolIngest_failure_aborts:
  assumes ch: "chunkText (ia_content args) (parseInt_or (MAX_CHUNK_TOKENS env) 400)
               (parseInt_or (CHUNK_OVERLAP env) 50) = Inr chunks"
  shows "(\<exists>res w' vs ws. toolIngest env args now w = (res, w') \<and>
     VECTORIZE w' = VECTORIZE w @ vs \<and> length ws = Suc (length vs) \<and> ws ! 0 = w \<and>
     (\<forall>j<length vs. chunk_written env args now (length chunks) j (chunks ! j)
                       (ws ! j) (ws ! Suc j)) \<and>
     (case res of
        Inl e \<Rightarrow> length vs < length chunks \<and>
                 uuids_drawn w' = uuids_drawn w + length vs + 1 \<and>
                 chunk_failed env args now (length chunks) (length vs) (chunks ! (length vs))
                   (ws ! (length vs)) e w'
      | Inr r \<Rightarrow> length vs = length chunks \<and> w' = ws ! (length vs) \<and>
                 uuids_drawn w' = uuids_drawn w + length chunks \<and>
                 r = \<lparr>ir_success = True, ir_entity = ia_entity_name args,
                      ir_chunks_created = length chunks, ir_memory_ids = map v_id vs\<rparr>)) \<and>
   (length ws0 = Suc n \<and> ws0 ! 0 = w \<and> n < length chunks \<and>
    (\<forall>j<n. chunk_written env args now (length chunks) j (chunks ! j) (ws0 ! j) (ws0 ! Suc j)) \<and>
    chunk_failed env args now (length chunks) n (chunks ! n) (ws0 ! n) e wfail
    \<longrightarrow> toolIngest env args now w = (Inl e, wfail))"
proof (intro conjI impI)
  obtain res w' where run: "toolIngest env args now w = (res, w')"
    by (cases "toolIngest env args now w") auto
  from toolIngest_loop [OF run ch] obtain lres where
    l: "ingest_loop env args now chunks 0 [] w = (lres, w')"
    and res: "res = (case lres of Inl e \<Rightarrow> Inl e
                 | Inr results \<Rightarrow> Inr \<lparr>ir_success = True, ir_entity = ia_entity_name args,
                             ir_chunks_created = length results,
                             ir_memory_ids = map ii_id results\<rparr>)"
    by blast
  from toolIngest_spec [OF run ch] obtain vs where
      vs: "VECTORIZE w' = VECTORIZE w @ vs"
      and rs: "(case res of
        Inl e \<Rightarrow> length vs < length chunks \<and>
                 uuids_drawn w' = uuids_drawn w + length vs + 1 \<and>
                 (\<exists>wa. fst (ingest_chunk env args now (length chunks) (length vs)
                              (chunks ! (length vs)) wa) = Inl e)
      | Inr r \<Rightarrow> length vs = length chunks \<and>
                 uuids_drawn w' = uuids_drawn w + length vs \<and>
                 r = \<lparr>ir_success = True, ir_entity = ia_entity_name args,
                      ir_chunks_created = length chunks, ir_memory_ids = map v_id vs\<rparr>)"
      by blast
  from ingest_loop_trace [OF l le0] obtain ws where
    all: "ws \<noteq> [] \<and> ws ! 0 = w \<and> 0 + length ws \<le> Suc (length chunks) \<and>
     (\<forall>j. Suc j < length ws \<longrightarrow>
        chunk_written env args now (length chunks) (0 + j) (chunks ! (0 + j))
          (ws ! j) (ws ! Suc j)) \<and>
     length (VECTORIZE (last ws)) = length (VECTORIZE w) + (length ws - 1) \<and>
     (case lres of
        Inl e \<Rightarrow> 0 + length ws \<le> length chunks \<and>
                 chunk_failed env args now (length chunks) (0 + (length ws - 1))
                   (chunks ! (0 + (length ws - 1))) (last ws) e w'
      | Inr items \<Rightarrow> 0 + length ws = Suc (length chunks) \<and> w' = last ws)" ..
  then have ne: "ws \<noteq> []" and w0: "ws ! 0 = w"
    and tr: "\<forall>j. Suc j < length ws \<longrightarrow>
        chunk_written env args now (length chunks) j (chunks ! j) (ws ! j) (ws ! Suc j)"
    and vl: "length (VECTORIZE (last ws)) = length (VECTORIZE w) + (length ws - 1)"
    and ls: "(case lres of
        Inl e \<Rightarrow> length ws \<le> length chunks \<and>
                 chunk_failed env args now (length chunks) (length ws - 1)
                   (chunks ! (length ws - 1)) (last ws) e w'
      | Inr items \<Rightarrow> length ws = Suc (length chunks) \<and> w' = last ws)"
    by (cases lres; simp)+
  have len: "length ws = Suc (length vs)"
  proof (cases lres)
    case (Inl e)
    with ls have "chunk_failed env args now (length chunks) (length ws - 1)
                   (chunks ! (length ws - 1)) (last ws) e w'" by simp
    from chunk_failed_VECTORIZE [OF this] vs
    have "VECTORIZE (last ws) = VECTORIZE w @ vs" by simp
    then have "length (VECTORIZE (last ws)) = length (VECTORIZE w) + length vs"
      by (simp only: length_append)
    with vl have "length ws - 1 = length vs" by simp
    moreover from ne have "0 < length ws" by simp
    ultimately show ?thesis by linarith
  next
    case (Inr items)
    with ls res rs show ?thesis by simp
  qed
  from ne have lst: "last ws = ws ! (length ws - 1)" by (rule last_conv_nth)
  have tr': "\<forall>j<length vs. chunk_written env args now (length chunks) j (chunks ! j)
                       (ws ! j) (ws ! Suc j)"
    using tr len by simp
  have fin: "(case res of
        Inl e \<Rightarrow> length vs < length chunks \<and>
                 uuids_drawn w' = uuids_drawn w + length vs + 1 \<and>
                 chunk_failed env args now (length chunks) (length vs) (chunks ! (length vs))
                   (ws ! (length vs)) e w'
      | Inr r \<Rightarrow> length vs = length chunks \<and> w' = ws ! (length vs) \<and>
                 uuids_drawn w' = uuids_drawn w + length chunks \<and>
                 r = \<lparr>ir_success = True, ir_entity = ia_entity_name args,
                      ir_chunks_created = length chunks, ir_memory_ids = map v_id vs\<rparr>)"
  proof (cases lres)
    case (Inl e)
    with res have "res = Inl e" by simp
    with rs ls Inl lst len show ?thesis by simp
  next
    case (Inr items)
    with res obtain r where "res = Inr r" by simp
    with rs ls Inr lst len show ?thesis by simp
  qed
  from run vs len w0 tr' fin
  show "\<exists>res w' vs ws. toolIngest env args now w = (res, w') \<and>
     VECTORIZE w' = VECTORIZE w @ vs \<and> length ws = Suc (length vs) \<and> ws ! 0 = w \<and>
     (\<forall>j<length vs. chunk_written env args now (length chunks) j (chunks ! j)
                       (ws ! j) (ws ! Suc j)) \<and>
     (case res of
        Inl e \<Rightarrow> length vs < length chunks \<and>
                 uuids_drawn w' = uuids_drawn w + length vs + 1 \<and>
                 chunk_failed env args now (length chunks) (length vs) (chunks ! (length vs))
                   (ws ! (length vs)) e w'
      | Inr r \<Rightarrow> length vs = length chunks \<and> w' = ws ! (length vs) \<and>
                 uuids_drawn w' = uuids_drawn w + length chunks \<and>
                 r = \<lparr>ir_success = True, ir_entity = ia_entity_name args,
                      ir_chunks_created = length chunks, ir_memory_ids = map v_id vs\<rparr>)"
    by blast
next
  assume a: "length ws0 = Suc n \<and> ws0 ! 0 = w \<and> n < length chunks \<and>
    (\<forall>j<n. chunk_written env args now (length chunks) j (chunks ! j) (ws0 ! j) (ws0 ! Suc j)) \<and>
    chunk_failed env args now (length chunks) n (chunks ! n) (ws0 ! n) e wfail"
  then have "ingest_loop env args now chunks 0 [] (ws0 ! 0) = (Inl e, wfail)"
    using ingest_loop_forward [of ws0 n 0 chunks env args now e wfail "[]"] by simp
  with a ch show "toolIngest env args now w = (Inl e, wfail)"
    by (simp add: toolIngest_def)
qed

theorem toolIngest_failure_aborts_witness:
  "chunkText (ia_content example_args) (parseInt_or (MAX_CHUNK_TOKENS example_failing_env) 400)
      (parseInt_or (CHUNK_OVERLAP example_failing_env) 50)
     = Inr [''aaaaaaaa'', ''aaaaaaaa'', ''aaaa''] \<and>
   chunk_written example_failing_env example_args example_now 3 0 ''aaaaaaaa''
     empty_world example_world_written \<and>
   AI_run example_failing_env (chunk_world example_world_written) ''aaaaaaaa'' = Inl AIError \<and>
   chunk_failed example_failing_env example_args example_now 3 1 ''aaaaaaaa''
     example_world_written AIError example_world_failed \<and>
   toolIngest example_failing_env example_args example_now empty_world
     = (Inl AIError, example_world_failed) \<and>
   chunkText (ia_content example_long_args)
      (parseInt_or (MAX_CHUNK_TOKENS example_put_failing_env) 400)
      (parseInt_or (CHUNK_OVERLAP example_put_failing_env) 50)
     = Inr [replicate 600 CHR ''a''] \<and>
   R2_put example_put_failing_env (chunk_world empty_world)
      (chunk_blob_key example_put_failing_env (replicate 600 CHR ''a''))
      (chunk_blob example_put_failing_env example_long_args example_now 1 0
         (replicate 600 CHR ''a'')) = Inl R2Error \<and>
   chunk_failed example_put_failing_env example_long_args example_now 1 0
     (replicate 600 CHR ''a'') empty_world R2Error (chunk_world empty_world) \<and>
   toolIngest example_put_failing_env example_long_args example_now empty_world
     = (Inl R2Error, chunk_world empty_world)"
proof -
  have ai: "AI_run example_failing_env (chunk_world example_world_written) ''aaaaaaaa''
              = Inl AIError"
    by (simp add: example_failing_env_def example_env_def chunk_world_def
        example_world_written_def)
  have tr: "\<forall>j<1. chunk_written example_failing_env example_args example_now
              (length [''aaaaaaaa'', ''aaaaaaaa'', ''aaaa''])
              j ([''aaaaaaaa'', ''aaaaaaaa'', ''aaaa''] ! j)
              ([empty_world, example_world_written] ! j)
              ([empty_world, example_world_written] ! Suc j)"
    using example_first_chunk_written by (simp add: numeral_3_eq_3)
  have fl: "chunk_failed example_failing_env example_args example_now
              (length [''aaaaaaaa'', ''aaaaaaaa'', ''aaaa''])
              1 ([''aaaaaaaa'', ''aaaaaaaa'', ''aaaa''] ! 1)
              ([empty_world, example_world_written] ! 1) AIError example_world_failed"
    using example_second_chunk_failed by (simp add: numeral_3_eq_3)
  from toolIngest_failure_aborts [OF example_args_chunks,
      where now = example_now and w = empty_world
        and ?ws0.0 = "[empty_world, example_world_written]" and n = 1 and e = AIError
        and wfail = example_world_failed] tr fl
  have r1: "toolIngest example_failing_env example_args example_now empty_world
     = (Inl AIError, example_world_failed)" by simp
  have fl2: "chunk_failed example_put_failing_env example_long_args example_now
               (length [replicate 600 CHR ''a'']) 0 ([replicate 600 CHR ''a''] ! 0)
               ([empty_world] ! 0) R2Error (chunk_world empty_world)"
    using example_long_put_failed by simp
  from toolIngest_failure_aborts [OF example_long_chunks,
      where now = example_now and w = empty_world
        and ?ws0.0 = "[empty_world]" and n = 0 and e = R2Error
        and wfail = "chunk_world empty_world"] fl2
  have r2: "toolIngest example_put_failing_env example_long_args example_now empty_world
     = (Inl R2Error, chunk_world empty_world)" by simp
  from example_args_chunks example_first_chunk_written ai example_second_chunk_failed r1
    example_long_chunks example_long_put example_long_put_failed r2
  show ?thesis by (intro conjI)
qed

text \<open>
  C1 as stated fails: the content below chunks into three chunks; the embedding fails
  for the second one, and the call ends with that error, one vector written and the
  third chunk never started.
\<close>

theorem toolIngest_stops_at_failed_chunk:
  "chunkText ''aaaaaaaaaaaa'' (parseInt_or (MAX_CHUNK_TOKENS example_failing_env) 400)
      (parseInt_or (CHUNK_OVERLAP example_failing_env) 50)
     = Inr [''aaaaaaaa'', ''aaaaaaaa'', ''aaaa''] \<and>
   toolIngest example_failing_env
      \<lparr>ia_content = ''aaaaaaaaaaaa'', ia_entity_name = ''e1'', ia_source_platform = ''p'',
        ia_memory_type = ''note'', ia_metadata = None\<rparr> ''2026-01-15T00:00:00.000Z'' empty_world
     = (Inl AIError,
             \<lparr>R2 = [],
              VECTORIZE =
                [\<lparr>v_id = ''mem_1b4e28ba2fa111d2'', v_values = [0.5], v_namespace = ''e1'',
                  v_metadata =
                    ingest_metadata
                      \<lparr>ia_content = ''aaaaaaaaaaaa'', ia_entity_name = ''e1'',
                        ia_source_platform = ''p'', ia_memory_type = ''note'',
                        ia_metadata = None\<rparr>
                      ''2026-01-15T00:00:00.000Z'' ''aaaaaaaa'' ''00'' 0 3\<rparr>],
              uuids_drawn = 2\<rparr>)"
  using example_failing_chunks example_failing_run by simp

subsection \<open>Caller metadata and system keys\<close>

lemma toolIngest_caller_key:
  assumes run: "toolIngest env args now w = (res, w')"
    and md: "ia_metadata args = Some md" "md k = Some val" and nk: "k \<noteq> ''r2_key''"
  shows "\<exists>vs. VECTORIZE w' = VECTORIZE w @ vs \<and>
              (\<forall>v\<in>set vs. v_metadata v k = Some val) \<and>
              (\<forall>r. res = Inr r \<longrightarrow> length vs = ir_chunks_created r)"
proof (cases "chunkText (ia_content args) (parseInt_or (MAX_CHUNK_TOKENS env) 400)
               (parseInt_or (CHUNK_OVERLAP env) 50)")
  case (Inl e)
  with run have "res = Inl e" "w' = w" by (simp_all add: toolIngest_def Let_def)
  then show ?thesis by (intro exI [of _ "[]"]) simp
next
  case (Inr chunks)
  from toolIngest_spec [OF run Inr] obtain vs where
    vs: "VECTORIZE w' = VECTORIZE w @ vs"
    and mt: "\<forall>j<length vs.
      v_namespace (vs ! j) = ia_entity_name args \<and>
      v_metadata (vs ! j) =
        (if length (chunks ! j) > 500
         then (ingest_metadata args now (chunks ! j) (hashContent env (chunks ! j))
                 j (length chunks))
                (''r2_key'' \<mapsto> JStr (''chunks/'' @ hashContent env (chunks ! j) @ ''.json''))
         else ingest_metadata args now (chunks ! j) (hashContent env (chunks ! j))
                 j (length chunks))"
    and rs: "(case res of
      Inl e \<Rightarrow> length vs < length chunks \<and>
               uuids_drawn w' = uuids_drawn w + length vs + 1 \<and>
               (\<exists>wa. fst (ingest_chunk env args now (length chunks) (length vs)
                            (chunks ! (length vs)) wa) = Inl e)
    | Inr r \<Rightarrow> length vs = length chunks \<and>
               uuids_drawn w' = uuids_drawn w + length vs \<and>
               r = \<lparr>ir_success = True, ir_entity = ia_entity_name args,
                    ir_chunks_created = length chunks, ir_memory_ids = map v_id vs\<rparr>)"
    by blast
  have "v_metadata v k = Some val" if "v \<in> set vs" for v
  proof -
    from that obtain j where j: "j < length vs" "v = vs ! j"
      by (auto simp: in_set_conv_nth)
    with mt have "v_metadata v =
        (if length (chunks ! j) > 500
         then (ingest_metadata args now (chunks ! j) (hashContent env (chunks ! j))
                 j (length chunks))
                (''r2_key'' \<mapsto> JStr (''chunks/'' @ hashContent env (chunks ! j) @ ''.json''))
         else ingest_metadata args now (chunks ! j) (hashContent env (chunks ! j))
                 j (length chunks))" by simp
    with md nk show ?thesis by (simp add: ingest_metadata_caller)
  qed
  moreover have "\<forall>r. res = Inr r \<longrightarrow> length vs = ir_chunks_created r"
    using rs by auto
  ultimately show ?thesis using vs by blast
qed

lemma toolStore_caller_key:
  assumes run: "toolStore env sargs now w = (sres, w'')"
    and md: "st_metadata sargs = Some smd" "smd k = Some val"
  shows "\<exists>vs. VECTORIZE w'' = VECTORIZE w @ vs \<and>
              (\<forall>v\<in>set vs. v_metadata v k = Some val) \<and>
              (\<forall>r. sres = Inr r \<longrightarrow> length vs = 1)"
proof (cases sres)
  case (Inl e)
  with toolStore_spec [OF run] show ?thesis by (intro exI [of _ "[]"]) simp
next
  case (Inr r)
  with toolStore_spec [OF run] obtain v where
    "VECTORIZE w'' = VECTORIZE w @ [v]"
    "v_metadata v = store_metadata sargs now (hashContent env (st_text sargs))" by auto
  with md Inr show ?thesis
    by (intro exI [of _ "[v]"]) (simp add: store_metadata_caller)
qed

lemma toolIngest_success_caller_key:
  assumes md: "ia_metadata args = Some md" "md k = Some val" and nk: "k \<noteq> ''r2_key''"
    and ch: "chunkText (ia_content args) (parseInt_or (MAX_CHUNK_TOKENS env) 400)
               (parseInt_or (CHUNK_OVERLAP env) 50) = Inr chunks"
    and len: "length ws = Suc (length chunks)" and w0: "ws ! 0 = w"
    and tr: "\<forall>j<length chunks. chunk_written env args now (length chunks) j (chunks ! j)
               (ws ! j) (ws ! Suc j)"
  shows "\<exists>r vs. toolIngest env args now w = (Inr r, ws ! length chunks) \<and>
                ir_chunks_created r = length chunks \<and>
                VECTORIZE (ws ! length chunks) = VECTORIZE w @ vs \<and>
                length vs = length chunks \<and>
                (\<forall>v\<in>set vs. v_metadata v k = Some val)"
proof -
  from toolIngest_success [OF ch len w0 tr] obtain r where
    r: "toolIngest env args now w = (Inr r, ws ! length chunks)"
       "ir_chunks_created r = length chunks" by blast
  from toolIngest_caller_key [OF r(1) md nk] obtain vs where
    "VECTORIZE (ws ! length chunks) = VECTORIZE w @ vs"
    "\<forall>v\<in>set vs. v_metadata v k = Some val"
    "length vs = ir_chunks_created r" by auto
  with r show ?thesis by auto
qed

text \<open>
  C8. For every ingest or store call and every caller-supplied metadata key that is one
  of the system-assigned keys (\<open>entity_name\<close>, \<open>source_platform\<close>, \<open>memory_type\<close>,
  \<open>timestamp\<close>, \<open>text_preview\<close>, \<open>chunk_hash\<close>, \<open>chunk_index\<close>, \<open>total_chunks\<close>,
  \<open>ingested_at\<close>), the value stored under that key in the metadata of every unit the
  call upserts is the caller's value: the caller's keys are merged last. A call that
  returns a result has upserted as many units as it reports (one for store). And the
  calls do upsert: when every chunk of an ingest call is written through the worlds
  \<open>ws\<close>, the call returns a result that reports all the chunks, with one unit per
  chunk in the index; when the embedding succeeds and the index accepts the vector
  \<open>store_vector\<close>, in which the key holds the caller's value, the store call returns
  its result with exactly that vector added to the index.
\<close>

theorem caller_metadata_overrides_system_keys:
  assumes key: "k \<in> {''entity_name'', ''source_platform'', ''memory_type'', ''timestamp'',
                      ''text_preview'', ''chunk_hash'', ''chunk_index'', ''total_chunks'',
                      ''ingested_at''}"
  shows "(toolIngest env args now w = (res, w') \<and> ia_metadata args = Some md \<and>
            md k = Some val \<longrightarrow>
            (\<exists>vs. VECTORIZE w' = VECTORIZE w @ vs \<and>
                  (\<forall>v\<in>set vs. v_metadata v k = Some val) \<and>
                  (\<forall>r. res = Inr r \<longrightarrow> length vs = ir_chunks_created r))) \<and>
         (toolStore env sargs now w = (sres, w'') \<and> st_metadata sargs = Some smd \<and>
            smd k = Some val \<longrightarrow>
            (\<exists>vs. VECTORIZE w'' = VECTORIZE w @ vs \<and>
                  (\<forall>v\<in>set vs. v_metadata v k = Some val) \<and>
                  (\<forall>r. sres = Inr r \<longrightarrow> length vs = 1))) \<and>
         (ia_metadata args = Some md \<and> md k = Some val \<and>
          chunkText (ia_content args) (parseInt_or (MAX_CHUNK_TOKENS env) 400)
            (parseInt_or (CHUNK_OVERLAP env) 50) = Inr chunks \<and>
          length ws = Suc (length chunks) \<and> ws ! 0 = w \<and>
          (\<forall>j<length chunks. chunk_written env args now (length chunks) j (chunks ! j)
                                (ws ! j) (ws ! Suc j)) \<longrightarrow>
            (\<exists>r vs. toolIngest env args now w = (Inr r, ws ! length chunks) \<and>
                    ir_chunks_created r = length chunks \<and>
                    VECTORIZE (ws ! length chunks) = VECTORIZE w @ vs \<and>
                    length vs = length chunks \<and>
                    (\<forall>v\<in>set vs. v_metadata v k = Some val))) \<and>
         (st_metadata sargs = Some smd \<and> smd k = Some val \<and>
          AI_run env (chunk_world w) (st_text sargs) = Inr emb \<and>
          VECTORIZE_upsert env (chunk_world w) (store_vector env sargs now w emb) = Inr () \<longrightarrow>
            v_metadata (store_vector env sargs now w emb) k = Some val \<and>
            toolStore env sargs now w =
              (Inr \<lparr>sto_success = True, sto_memory_id = fst (generateId env w),
                     sto_entity = st_entity_name sargs, sto_type = st_memory_type sargs\<rparr>,
               (chunk_world w)\<lparr>VECTORIZE := VECTORIZE w
                                               @ [store_vector env sargs now w emb]\<rparr>))"
proof (intro conjI impI)
  from key have nk: "k \<noteq> ''r2_key''" by auto
  {
    assume a: "toolIngest env args now w = (res, w') \<and> ia_metadata args = Some md \<and>
            md k = Some val"
    then show "\<exists>vs. VECTORIZE w' = VECTORIZE w @ vs \<and>
                  (\<forall>v\<in>set vs. v_metadata v k = Some val) \<and>
                  (\<forall>r. res = Inr r \<longrightarrow> length vs = ir_chunks_created r)"
      using toolIngest_caller_key [of env args now w res w' md k val] nk by blast
  }
  {
    assume a: "toolStore env sargs now w = (sres, w'') \<and> st_metadata sargs = Some smd \<and>
            smd k = Some val"
    then show "\<exists>vs. VECTORIZE w'' = VECTORIZE w @ vs \<and>
                  (\<forall>v\<in>set vs. v_metadata v k = Some val) \<and>
                  (\<forall>r. sres = Inr r \<longrightarrow> length vs = 1)"
      using toolStore_caller_key [of env sargs now w sres w'' smd k val] by blast
  }
  {
    assume a: "ia_metadata args = Some md \<and> md k = Some val \<and>
          chunkText (ia_content args) (parseInt_or (MAX_CHUNK_TOKENS env) 400)
            (parseInt_or (CHUNK_OVERLAP env) 50) = Inr chunks \<and>
          length ws = Suc (length chunks) \<and> ws ! 0 = w \<and>
          (\<forall>j<length chunks. chunk_written env args now (length chunks) j (chunks ! j)
                                (ws ! j) (ws ! Suc j))"
    then show "\<exists>r vs. toolIngest env args now w = (Inr r, ws ! length chunks) \<and>
                    ir_chunks_created r = length chunks \<and>
                    VECTORIZE (ws ! length chunks) = VECTORIZE w @ vs \<and>
                    length vs = length chunks \<and>
                    (\<forall>v\<in>set vs. v_metadata v k = Some val)"
      using toolIngest_success_caller_key [of args md k val env chunks ws w now] nk by blast
  }
  {
    assume a: "st_metadata sargs = Some smd \<and> smd k = Some val \<and>
          AI_run env (chunk_world w) (st_text sargs) = Inr emb \<and>
          VECTORIZE_upsert env (chunk_world w) (store_vector env sargs now w emb) = Inr ()"
    then show "v_metadata (store_vector env sargs now w emb) k = Some val"
      by (simp add: store_vector_def store_metadata_caller)
    from a show "toolStore env sargs now w =
              (Inr \<lparr>sto_success = True, sto_memory_id = fst (generateId env w),
                     sto_entity = st_entity_name sargs, sto_type = st_memory_type sargs\<rparr>,
               (chunk_world w)\<lparr>VECTORIZE := VECTORIZE w
                                               @ [store_vector env sargs now w emb]\<rparr>)"
      using toolStore_run [of env w sargs emb now] by blast
  }
qed

theorem caller_metadata_overrides_system_keys_witness:
  "toolIngest example_env
      \<lparr>ia_content = ''hello'', ia_entity_name = ''e1'', ia_source_platform = ''p'',
        ia_memory_type = ''note'', ia_metadata = Some [''chunk_hash'' \<mapsto> JStr ''mine'']\<rparr>
      ''2026-01-15T00:00:00.000Z'' empty_world
     = (Inr \<lparr>ir_success = True, ir_entity = ''e1'', ir_chunks_created = 1,
                  ir_memory_ids = [''mem_1b4e28ba2fa111d2'']\<rparr>,
             \<lparr>R2 = [],
              VECTORIZE =
                [\<lparr>v_id = ''mem_1b4e28ba2fa111d2'', v_values = [0.5], v_namespace = ''e1'',
                  v_metadata =
                    ingest_metadata
                      \<lparr>ia_content = ''hello'', ia_entity_name = ''e1'',
                        ia_source_platform = ''p'', ia_memory_type = ''note'',
                        ia_metadata = Some [''chunk_hash'' \<mapsto> JStr ''mine'']\<rparr>
                      ''2026-01-15T00:00:00.000Z'' ''hello'' ''00'' 0 1\<rparr>],
              uuids_drawn = 1\<rparr>) \<and>
   ingest_metadata
      \<lparr>ia_content = ''hello'', ia_entity_name = ''e1'', ia_source_platform = ''p'',
        ia_memory_type = ''note'', ia_metadata = Some [''chunk_hash'' \<mapsto> JStr ''mine'']\<rparr>
      ''2026-01-15T00:00:00.000Z'' ''hello'' ''00'' 0 1 ''chunk_hash'' = Some (JStr ''mine'') \<and>
   AI_run example_env (chunk_world empty_world) ''hi'' = Inr [0.5] \<and>
   VECTORIZE_upsert example_env (chunk_world empty_world)
      (store_vector example_env
         \<lparr>st_text = ''hi'', st_entity_name = ''e1'', st_source_platform = None,
           st_memory_type = ''note'', st_metadata = Some [''chunk_hash'' \<mapsto> JStr ''mine'']\<rparr>
         ''2026-01-15T00:00:00.000Z'' empty_world [0.5]) = Inr () \<and>
   toolStore example_env
      \<lparr>st_text = ''hi'', st_entity_name = ''e1'', st_source_platform = None,
        st_memory_type = ''note'', st_metadata = Some [''chunk_hash'' \<mapsto> JStr ''mine'']\<rparr>
      ''2026-01-15T00:00:00.000Z'' empty_world
     = (Inr \<lparr>sto_success = True, sto_memory_id = ''mem_1b4e28ba2fa111d2'', sto_entity = ''e1'',
             sto_type = ''note''\<rparr>,
        \<lparr>R2 = [],
         VECTORIZE =
           [\<lparr>v_id = ''mem_1b4e28ba2fa111d2'', v_values = [0.5], v_namespace = ''e1'',
             v_metadata =
               store_metadata
                 \<lparr>st_text = ''hi'', st_entity_name = ''e1'', st_source_platform = None,
                   st_memory_type = ''note'',
                   st_metadata = Some [''chunk_hash'' \<mapsto> JStr ''mine'']\<rparr>
                 ''2026-01-15T00:00:00.000Z'' ''00''\<rparr>],
         uuids_drawn = 1\<rparr>) \<and>
   store_metadata
      \<lparr>st_text = ''hi'', st_entity_name = ''e1'', st_source_platform = None,
        st_memory_type = ''note'', st_metadata = Some [''chunk_hash'' \<mapsto> JStr ''mine'']\<rparr>
      ''2026-01-15T00:00:00.000Z'' ''00'' ''chunk_hash'' = Some (JStr ''mine'')"
proof -
  have k: "''chunk_hash'' \<in> {''entity_name'', ''source_platform'', ''memory_type'', ''timestamp'',
                      ''text_preview'', ''chunk_hash'', ''chunk_index'', ''total_chunks'',
                      ''ingested_at''}" by simp
  let ?A = "\<lparr>ia_content = ''hello'', ia_entity_name = ''e1'', ia_source_platform = ''p'',
        ia_memory_type = ''note'', ia_metadata = Some [''chunk_hash'' \<mapsto> JStr ''mine'']\<rparr>"
  let ?S = "\<lparr>st_text = ''hi'', st_entity_name = ''e1'', st_source_platform = None,
        st_memory_type = ''note'', st_metadata = Some [''chunk_hash'' \<mapsto> JStr ''mine'']\<rparr>"
  let ?W1 = "\<lparr>R2 = [],
              VECTORIZE =
                [\<lparr>v_id = ''mem_1b4e28ba2fa111d2'', v_values = [0.5], v_namespace = ''e1'',
                  v_metadata = ingest_metadata ?A ''2026-01-15T00:00:00.000Z'' ''hello'' ''00'' 0 1\<rparr>],
              uuids_drawn = 1\<rparr>"
  let ?W2 = "\<lparr>R2 = [],
         VECTORIZE =
           [\<lparr>v_id = ''mem_1b4e28ba2fa111d2'', v_values = [0.5], v_namespace = ''e1'',
             v_metadata = store_metadata ?S ''2026-01-15T00:00:00.000Z'' ''00''\<rparr>],
         uuids_drawn = 1\<rparr>"
  have ai: "AI_run example_env (chunk_world empty_world) ''hi'' = Inr [0.5]"
    by (simp add: example_env_def)
  have up: "VECTORIZE_upsert example_env (chunk_world empty_world)
      (store_vector example_env ?S ''2026-01-15T00:00:00.000Z'' empty_world [0.5]) = Inr ()"
    by (simp add: example_env_def)
  have ch: "chunkText (ia_content ?A) (parseInt_or (MAX_CHUNK_TOKENS example_env) 400)
      (parseInt_or (CHUNK_OVERLAP example_env) 50) = Inr [''hello'']"
    using example_hello_chunks by simp
  have tr: "\<forall>j<length [''hello''].
      chunk_written example_env ?A ''2026-01-15T00:00:00.000Z'' (length [''hello'']) j
        ([''hello''] ! j) ([empty_world, ?W1] ! j) ([empty_world, ?W1] ! Suc j)"
    using example_hello_written by simp
  note inst = caller_metadata_overrides_system_keys [OF k,
      where env = example_env and args = ?A and now = "''2026-01-15T00:00:00.000Z''"
        and w = empty_world and md = "[''chunk_hash'' \<mapsto> JStr ''mine'']"
        and val = "JStr ''mine''" and sargs = ?S
        and smd = "[''chunk_hash'' \<mapsto> JStr ''mine'']"
        and res = "Inr \<lparr>ir_success = True, ir_entity = ''e1'', ir_chunks_created = 1,
                  ir_memory_ids = [''mem_1b4e28ba2fa111d2'']\<rparr>"
        and w' = ?W1
        and sres = "Inr \<lparr>sto_success = True, sto_memory_id = ''mem_1b4e28ba2fa111d2'',
             sto_entity = ''e1'', sto_type = ''note''\<rparr>"
        and w'' = ?W2 and chunks = "[''hello'']" and ws = "[empty_world, ?W1]"
        and emb = "[0.5]"]
  from inst have ing: "\<exists>vs. VECTORIZE ?W1 = VECTORIZE empty_world @ vs \<and>
                  (\<forall>v\<in>set vs. v_metadata v ''chunk_hash'' = Some (JStr ''mine'')) \<and>
                  length vs = 1"
    using example_override_run by simp
  from inst have sto: "\<exists>vs. VECTORIZE ?W2 = VECTORIZE empty_world @ vs \<and>
                  (\<forall>v\<in>set vs. v_metadata v ''chunk_hash'' = Some (JStr ''mine'')) \<and>
                  length vs = 1"
    using example_override_store by simp
  from inst ch tr have fwd_ing: "\<exists>r vs. toolIngest example_env ?A ''2026-01-15T00:00:00.000Z''
         empty_world = (Inr r, [empty_world, ?W1] ! length [''hello'']) \<and>
       ir_chunks_created r = length [''hello''] \<and>
       VECTORIZE ([empty_world, ?W1] ! length [''hello'']) = VECTORIZE empty_world @ vs \<and>
       length vs = length [''hello''] \<and>
       (\<forall>v\<in>set vs. v_metadata v ''chunk_hash'' = Some (JStr ''mine''))"
    by simp
  from inst ai up have fwd_sto:
    "v_metadata (store_vector example_env ?S ''2026-01-15T00:00:00.000Z'' empty_world [0.5])
       ''chunk_hash'' = Some (JStr ''mine'') \<and>
     toolStore example_env ?S ''2026-01-15T00:00:00.000Z'' empty_world =
       (Inr \<lparr>sto_success = True, sto_memory_id = fst (generateId example_env empty_world),
              sto_entity = st_entity_name ?S, sto_type = st_memory_type ?S\<rparr>,
        (chunk_world empty_world)\<lparr>VECTORIZE := VECTORIZE empty_world
           @ [store_vector example_env ?S ''2026-01-15T00:00:00.000Z'' empty_world [0.5]]\<rparr>)"
    by simp
  from ing have m1: "ingest_metadata ?A ''2026-01-15T00:00:00.000Z'' ''hello'' ''00'' 0 1
      ''chunk_hash'' = Some (JStr ''mine'')"
    by (auto simp: empty_world_def)
  from fwd_sto example_store_vector
  have m2: "store_metadata ?S ''2026-01-15T00:00:00.000Z'' ''00'' ''chunk_hash''
      = Some (JStr ''mine'')"
    by simp
  from m1 m2 ai up example_override_run example_override_store show ?thesis by simp
qed

subsection \<open>The scenario of 600 characters\<close>

text \<open>
  C9. Ingesting a content string of 600 characters (such as 600 repetitions of \<open>a\<close>)
  for entity \<open>e1\<close>, platform \<open>p\<close> and type \<open>note\<close>, with the fine profile (400 tokens,
  1600 characters) and no caller metadata, when the embedding model and the blob store
  answer and the index accepts a vector naming a blob that is stored, produces exactly
  one memory unit. Its metadata has \<open>chunk_index = 0\<close> and \<open>total_chunks = 1\<close>, the blob
  key \<open>chunks/<hash>.json\<close> under \<open>r2_key\<close>, and a \<open>text_preview\<close> of exactly 500
  characters, the first 500 of the chunk. The full chunk has been put under that key,
  with the metadata as it was before the key was recorded, and the blob is in the store
  when the index is asked to upsert. The call reports one chunk and the unit's id.
\<close>

theorem ingest_600_characters:
  fixes env :: env and w :: world and content now :: string
    and embed :: "world \<Rightarrow> string \<Rightarrow> embedding"
  defines "args \<equiv> \<lparr>ia_content = content, ia_entity_name = ''e1'', ia_source_platform = ''p'',
                    ia_memory_type = ''note'', ia_metadata = None\<rparr>"
  defines "r2Key \<equiv> ''chunks/'' @ hashContent env content @ ''.json''"
  assumes len: "length content = 600"
    and profile: "parseInt_or (MAX_CHUNK_TOKENS env) 400 = 400"
    and ai: "\<And>w t. AI_run env w t = Inr (embed w t)"
    and put: "\<And>w k obj. R2_put env w k obj = Inr ()"
    and ups: "\<And>w v. v_metadata v ''r2_key'' = Some (JStr r2Key) \<Longrightarrow> r2Key \<in> fst ` set (R2 w)
                \<Longrightarrow> VECTORIZE_upsert env w v = Inr ()"
  shows "\<exists>v blob_md.
     toolIngest env args now w =
       (Inr \<lparr>ir_success = True, ir_entity = ''e1'', ir_chunks_created = 1,
                  ir_memory_ids = [v_id v]\<rparr>,
             w\<lparr>R2 := R2 w @ [(r2Key, \<lparr>r2_hash = hashContent env content, r2_text = content,
                                      r2_metadata = blob_md\<rparr>)],
               VECTORIZE := VECTORIZE w @ [v],
               uuids_drawn := Suc (uuids_drawn w)\<rparr>) \<and>
     v_namespace v = ''e1'' \<and>
     v_metadata v ''chunk_index'' = Some (JNum 0) \<and>
     v_metadata v ''total_chunks'' = Some (JNum 1) \<and>
     v_metadata v ''r2_key'' = Some (JStr r2Key) \<and>
     v_metadata v ''text_preview'' = Some (JStr (take 500 content)) \<and>
     length (take 500 content) = 500 \<and>
     v_metadata v = blob_md(''r2_key'' \<mapsto> JStr r2Key) \<and>
     blob_md ''r2_key'' = None"
proof -
  let ?w1 = "w\<lparr>uuids_drawn := Suc (uuids_drawn w)\<rparr>"
  let ?id = "fst (generateId env w)"
  let ?vm = "ingest_metadata args now content (hashContent env content) 0 1"
  let ?obj = "\<lparr>r2_hash = hashContent env content, r2_text = content, r2_metadata = ?vm\<rparr>"
  let ?w2 = "?w1\<lparr>R2 := R2 ?w1 @ [(r2Key, ?obj)]\<rparr>"
  let ?v = "\<lparr>v_id = ?id, v_values = embed ?w1 content, v_namespace = ia_entity_name args,
             v_metadata = ?vm(''r2_key'' \<mapsto> JStr r2Key)\<rparr>"
  have chunks: "chunkText (ia_content args) (parseInt_or (MAX_CHUNK_TOKENS env) 400)
                  (parseInt_or (CHUNK_OVERLAP env) 50) = Inr [content]"
    using len profile by (simp add: chunkText_def args_def)
  have gen: "snd (generateId env w) = ?w1"
    by (simp add: generateId_def)
  have up: "VECTORIZE_upsert env ?w2 ?v = Inr ()"
    by (rule ups) simp_all
  have chunk: "ingest_chunk env args now 1 0 content w =
      (Inr \<lparr>ii_id = ?id, ii_hash = hashContent env content, ii_chunk_index = 0\<rparr>,
       ?w2\<lparr>VECTORIZE := VECTORIZE ?w2 @ [?v]\<rparr>)"
    unfolding ingest_chunk_def
    using len up by (simp add: case_prod_unfold gen generateEmbedding_def ai put r2Key_def Let_def)
  have loop: "ingest_loop env args now [content] 0 [] w =
      (Inr [\<lparr>ii_id = ?id, ii_hash = hashContent env content, ii_chunk_index = 0\<rparr>],
       ?w2\<lparr>VECTORIZE := VECTORIZE ?w2 @ [?v]\<rparr>)"
    using chunk by (simp add: ingest_loop.simps)
  have run: "toolIngest env args now w =
       (Inr \<lparr>ir_success = True, ir_entity = ''e1'', ir_chunks_created = 1,
                  ir_memory_ids = [v_id ?v]\<rparr>,
             w\<lparr>R2 := R2 w @ [(r2Key, ?obj)],
               VECTORIZE := VECTORIZE w @ [?v],
               uuids_drawn := Suc (uuids_drawn w)\<rparr>)"
    unfolding toolIngest_def using chunks by (simp add: loop Let_def) (simp add: args_def)
  have md: "?vm ''chunk_index'' = Some (JNum 0)" "?vm ''total_chunks'' = Some (JNum 1)"
    "?vm ''text_preview'' = Some (JStr (take 500 content))" "?vm ''r2_key'' = None"
    by (simp_all add: ingest_metadata_def args_def slice_0)
  show ?thesis
    apply (rule exI [of _ ?v])
    apply (rule exI [of _ ?vm])
    using run md len by (simp add: args_def)
qed

theorem ingest_600_characters_witness:
  "length (replicate 600 CHR ''a'') = 600 \<and>
   parseInt_or (MAX_CHUNK_TOKENS example_checking_env) 400 = 400 \<and>
   (\<exists>v blob_md.
      toolIngest example_checking_env
        \<lparr>ia_content = replicate 600 CHR ''a'', ia_entity_name = ''e1'',
          ia_source_platform = ''p'', ia_memory_type = ''note'', ia_metadata = None\<rparr>
        ''2026-01-15T00:00:00.000Z'' empty_world =
      (Inr \<lparr>ir_success = True, ir_entity = ''e1'', ir_chunks_created = 1,
                 ir_memory_ids = [v_id v]\<rparr>,
            \<lparr>R2 = [(''chunks/00.json'',
                    \<lparr>r2_hash = ''00'', r2_text = replicate 600 CHR ''a'',
                     r2_metadata = blob_md\<rparr>)],
             VECTORIZE = [v], uuids_drawn = 1\<rparr>) \<and>
      v_metadata v ''chunk_index'' = Some (JNum 0) \<and>
      v_metadata v ''total_chunks'' = Some (JNum 1) \<and>
      v_metadata v ''r2_key'' = Some (JStr ''chunks/00.json'') \<and>
      v_metadata v ''text_preview'' = Some (JStr (replicate 500 CHR ''a'')))"
proof -
  have len: "length (replicate 600 CHR ''a'') = 600" by simp
  have profile: "parseInt_or (MAX_CHUNK_TOKENS example_checking_env) 400 = 400"
    by (simp add: parseInt_or_def example_checking_env_def example_env_def)
  have ai: "\<And>w t. AI_run example_checking_env w t = Inr ((\<lambda>w t. [0.5]) w t)"
    by (simp add: example_checking_env_def example_env_def)
  have put: "\<And>w k obj. R2_put example_checking_env w k obj = Inr ()"
    by (simp add: example_checking_env_def example_env_def)
  have ups: "\<And>w v. v_metadata v ''r2_key'' =
        Some (JStr (''chunks/'' @ hashContent example_checking_env (replicate 600 CHR ''a'')
                     @ ''.json'')) \<Longrightarrow>
        ''chunks/'' @ hashContent example_checking_env (replicate 600 CHR ''a'') @ ''.json''
           \<in> fst ` set (R2 w) \<Longrightarrow>
        VECTORIZE_upsert example_checking_env w v = Inr ()"
    by (simp add: example_checking_env_def example_env_def hashContent_def)
  have h: "hashContent example_checking_env (replicate 600 CHR ''a'') = ''00''"
    by (simp add: example_checking_env_def example_env_def hashContent_def)
  from ingest_600_characters [OF len profile ai put ups,
      of "''2026-01-15T00:00:00.000Z''" empty_world]
  obtain v blob_md where
    "toolIngest example_checking_env
        \<lparr>ia_content = replicate 600 CHR ''a'', ia_entity_name = ''e1'',
          ia_source_platform = ''p'', ia_memory_type = ''note'', ia_metadata = None\<rparr>
        ''2026-01-15T00:00:00.000Z'' empty_world =
      (Inr \<lparr>ir_success = True, ir_entity = ''e1'', ir_chunks_created = 1,
                 ir_memory_ids = [v_id v]\<rparr>,
            \<lparr>R2 = [(''chunks/00.json'',
                    \<lparr>r2_hash = ''00'', r2_text = replicate 600 CHR ''a'',
                     r2_metadata = blob_md\<rparr>)],
             VECTORIZE = [v], uuids_drawn = 1\<rparr>)"
    "v_metadata v ''chunk_index'' = Some (JNum 0)"
    "v_metadata v ''total_chunks'' = Some (JNum 1)"
    "v_metadata v ''r2_key'' = Some (JStr ''chunks/00.json'')"
    "v_metadata v ''text_preview'' = Some (JStr (replicate 500 CHR ''a''))"
    by (auto simp: h empty_world_def)
  with len profile show ?thesis by blast
qed

subsection \<open>The blob key\<close>

text \<open>
  C10. For every ingest call, \<open>r2_key\<close> is assigned after the caller's metadata is
  merged, so the caller cannot shadow it: the unit upserted for chunk \<open>j\<close> has
  \<open>r2_key = chunks/<hash of the chunk>.json\<close> when the chunk is longer than 500
  characters, whatever \<open>r2_key\<close> the caller supplies, and when the chunk has at most
  500 characters the system assigns none: the unit's \<open>r2_key\<close> is what the caller's
  metadata holds under that key, or absent. The units upserted by the call are those of
  the first chunks, in order, and of all chunks when the call returns a result.
\<close>

theorem r2_key_assigned_after_merge:
  assumes run: "toolIngest env args now w = (res, w')"
    and ch: "chunkText (ia_content args) (parseInt_or (MAX_CHUNK_TOKENS env) 400)
               (parseInt_or (CHUNK_OVERLAP env) 50) = Inr chunks"
  shows "\<exists>vs. VECTORIZE w' = VECTORIZE w @ vs \<and> length vs \<le> length chunks \<and>
           (\<forall>r. res = Inr r \<longrightarrow> length vs = length chunks) \<and>
           (\<forall>j<length vs.
              (length (chunks ! j) > 500 \<longrightarrow>
                 v_metadata (vs ! j) ''r2_key'' =
                   Some (JStr (''chunks/'' @ hashContent env (chunks ! j) @ ''.json''))) \<and>
              (length (chunks ! j) \<le> 500 \<longrightarrow>
                 v_metadata (vs ! j) ''r2_key'' =
                   (case ia_metadata args of None \<Rightarrow> None | Some md \<Rightarrow> md ''r2_key'')))"
proof -
  from toolIngest_spec [OF run ch] obtain vs where
      vs: "VECTORIZE w' = VECTORIZE w @ vs" "length vs \<le> length chunks"
      and md: "\<forall>j<length vs.
        v_namespace (vs ! j) = ia_entity_name args \<and>
        v_metadata (vs ! j) =
          (if length (chunks ! j) > 500
           then (ingest_metadata args now (chunks ! j) (hashContent env (chunks ! j))
                   j (length chunks))
                  (''r2_key'' \<mapsto> JStr (''chunks/'' @ hashContent env (chunks ! j) @ ''.json''))
           else ingest_metadata args now (chunks ! j) (hashContent env (chunks ! j))
                   j (length chunks))"
      and rs: "(case res of
        Inl e \<Rightarrow> length vs < length chunks \<and>
                 uuids_drawn w' = uuids_drawn w + length vs + 1 \<and>
                 (\<exists>wf. fst (ingest_chunk env args now (length chunks) (length vs)
                              (chunks ! (length vs)) wf) = Inl e)
      | Inr r \<Rightarrow> length vs = length chunks \<and>
                 uuids_drawn w' = uuids_drawn w + length vs \<and>
                 r = \<lparr>ir_success = True, ir_entity = ia_entity_name args,
                      ir_chunks_created = length chunks, ir_memory_ids = map v_id vs\<rparr>)"
      by blast
  have "\<forall>r. res = Inr r \<longrightarrow> length vs = length chunks" using rs by auto
  moreover have "\<forall>j<length vs.
              (length (chunks ! j) > 500 \<longrightarrow>
                 v_metadata (vs ! j) ''r2_key'' =
                   Some (JStr (''chunks/'' @ hashContent env (chunks ! j) @ ''.json''))) \<and>
              (length (chunks ! j) \<le> 500 \<longrightarrow>
                 v_metadata (vs ! j) ''r2_key'' =
                   (case ia_metadata args of None \<Rightarrow> None | Some md \<Rightarrow> md ''r2_key''))"
    using md by (simp add: ingest_metadata_r2_key)
  ultimately show ?thesis using vs by blast
qed

theorem r2_key_assigned_after_merge_witness:
  "toolIngest example_env
      \<lparr>ia_content = replicate 600 CHR ''a'', ia_entity_name = ''e1'', ia_source_platform = ''p'',
        ia_memory_type = ''note'', ia_metadata = Some [''r2_key'' \<mapsto> JStr ''mine'']\<rparr>
      ''2026-01-15T00:00:00.000Z'' empty_world
     = (Inr \<lparr>ir_success = True, ir_entity = ''e1'', ir_chunks_created = 1,
                  ir_memory_ids = [''mem_1b4e28ba2fa111d2'']\<rparr>,
             \<lparr>R2 = [(''chunks/00.json'',
                     \<lparr>r2_hash = ''00'', r2_text = replicate 600 CHR ''a'',
                      r2_metadata =
                        ingest_metadata
                          \<lparr>ia_content = replicate 600 CHR ''a'', ia_entity_name = ''e1'',
                            ia_source_platform = ''p'', ia_memory_type = ''note'',
                            ia_metadata = Some [''r2_key'' \<mapsto> JStr ''mine'']\<rparr>
                          ''2026-01-15T00:00:00.000Z'' (replicate 600 CHR ''a'') ''00'' 0 1\<rparr>)],
              VECTORIZE =
                [\<lparr>v_id = ''mem_1b4e28ba2fa111d2'', v_values = [0.5], v_namespace = ''e1'',
                  v_metadata =
                    (ingest_metadata
                      \<lparr>ia_content = replicate 600 CHR ''a'', ia_entity_name = ''e1'',
                        ia_source_platform = ''p'', ia_memory_type = ''note'',
                        ia_metadata = Some [''r2_key'' \<mapsto> JStr ''mine'']\<rparr>
                      ''2026-01-15T00:00:00.000Z'' (replicate 600 CHR ''a'') ''00'' 0 1)
                    (''r2_key'' \<mapsto> JStr ''chunks/00.json'')\<rparr>],
              uuids_drawn = 1\<rparr>) \<and>
   chunkText (replicate 600 CHR ''a'') (parseInt_or (MAX_CHUNK_TOKENS example_env) 400)
      (parseInt_or (CHUNK_OVERLAP example_env) 50) = Inr [replicate 600 CHR ''a''] \<and>
   (\<exists>vs. [\<lparr>v_id = ''mem_1b4e28ba2fa111d2'', v_values = [0.5], v_namespace = ''e1'',
                  v_metadata =
                    (ingest_metadata
                      \<lparr>ia_content = replicate 600 CHR ''a'', ia_entity_name = ''e1'',
                        ia_source_platform = ''p'', ia_memory_type = ''note'',
                        ia_metadata = Some [''r2_key'' \<mapsto> JStr ''mine'']\<rparr>
                      ''2026-01-15T00:00:00.000Z'' (replicate 600 CHR ''a'') ''00'' 0 1)
                    (''r2_key'' \<mapsto> JStr ''chunks/00.json'')\<rparr>] = vs \<and>
         length vs = 1 \<and>
         v_metadata (vs ! 0) ''r2_key'' = Some (JStr ''chunks/00.json''))"
proof -
  let ?A = "\<lparr>ia_content = replicate 600 CHR ''a'', ia_entity_name = ''e1'',
              ia_source_platform = ''p'', ia_memory_type = ''note'',
              ia_metadata = Some [''r2_key'' \<mapsto> JStr ''mine'']\<rparr>"
  have ch: "chunkText (ia_content ?A) (parseInt_or (MAX_CHUNK_TOKENS example_env) 400)
      (parseInt_or (CHUNK_OVERLAP example_env) 50) = Inr [replicate 600 CHR ''a'']"
    by (simp add: chunkText_def parseInt_or_def example_env_def)
  from r2_key_assigned_after_merge [OF example_r2_run ch] example_r2_run ch
  show ?thesis by (simp add: empty_world_def hashContent_def example_env_def)
qed

end
